theory Spec2Isabelle
  imports Main "HOL-Library.Word"
begin

unbundle bit_operations_syntax

section \<open>JavaScript values and the platform the handlers run on\<close>

text \<open>
  The Netlify functions of the repository are JavaScript request handlers. Strings are
  modelled as \<^typ>\<open>string\<close>, read as the UTF-8 bytes of the JavaScript string. A
  JavaScript string may hold half of a surrogate pair on its own: the message of a
  \<open>JSON.parse\<close> error quotes the offending text cut at a code unit. Such a lone surrogate
  is written as the three bytes \<open>ED A0..BF 80..BF\<close> of generalised UTF-8. A thrown
  exception is a value of \<open>js_error\<close> carrying the \<open>message\<close> that the handlers' catch
  blocks read; a computation that may throw returns \<open>js_error + 'a\<close>, and so does an
  asynchronous handler, whose \<open>Inl\<close> is a rejected invocation.
\<close>

datatype js_error = JsError (message: string)

text \<open>
  JSON-shaped JavaScript values: what \<open>JSON.parse\<close> returns and what the handlers hand to
  \<open>JSON.stringify\<close> and \<open>querystring.stringify\<close>. Numbers are the integral ones, exact
  at any size (a JavaScript number rounds above \<open>2^53\<close>); \<open>NaN\<close> is what arithmetic on a
  missing number yields.
\<close>

datatype js =
    Undefined
  | Null
  | Bool bool
  | Num int
  | NaN
  | Str string
  | Arr "js list"
  | Obj "(string \<times> js) list"

text \<open>\<open>!v\<close> is \<open>\<not> truthy v\<close>.\<close>

fun truthy :: "js \<Rightarrow> bool" where
  "truthy Undefined = False"
| "truthy Null = False"
| "truthy (Bool b) = b"
| "truthy (Num n) = (n \<noteq> 0)"
| "truthy NaN = False"
| "truthy (Str s) = (s \<noteq> [])"
| "truthy (Arr xs) = True"
| "truthy (Obj kvs) = True"

text \<open>
  Property read \<open>v.p\<close> for the own, non-inherited property names the handlers use:
  reading a property of \<open>null\<close> or \<open>undefined\<close> throws a TypeError, a missing property
  is \<open>undefined\<close>.
\<close>

fun get_prop :: "js \<Rightarrow> string \<Rightarrow> js_error + js" where
  "get_prop Undefined p =
     Inl (JsError (''Cannot read properties of undefined (reading '' @ p @ '')''))"
| "get_prop Null p =
     Inl (JsError (''Cannot read properties of null (reading '' @ p @ '')''))"
| "get_prop (Obj kvs) p = Inr (case map_of kvs p of Some v \<Rightarrow> v | None \<Rightarrow> Undefined)"
| "get_prop v p = Inr Undefined"

text \<open>
  A string-valued slot that may be \<open>undefined\<close> (an environment variable, a query
  parameter, a header, a cookie, a field of a provider payload) is a \<open>string option\<close>.
\<close>

definition truthy_str :: "string option \<Rightarrow> bool" where
  "truthy_str v = (case v of None \<Rightarrow> False | Some s \<Rightarrow> s \<noteq> [])"

text \<open>\<open>a || d\<close> with a string default \<open>d\<close>.\<close>

definition or_str :: "string option \<Rightarrow> string \<Rightarrow> string" where
  "or_str v d = (case v of None \<Rightarrow> d | Some s \<Rightarrow> if s = [] then d else s)"

definition opt_js :: "string option \<Rightarrow> js" where
  "opt_js v = (case v of None \<Rightarrow> Undefined | Some s \<Rightarrow> Str s)"

record cookie_options =
  path :: string
  secure :: bool
  httpOnly :: bool
  sameSite :: string
  maxAge :: int
  expires :: "int option"

text \<open>
  The library functions the handlers call (\<open>cookie\<close>, \<open>querystring\<close>, \<open>JSON\<close>, the URI
  coders, \<open>Date.prototype.toUTCString\<close> on epoch milliseconds, the serialisation of a
  \<open>URL\<close> to which query parameters were appended, and the SHA-256 digest of
  \<open>crypto.createHash\<close> on bytes) are not part of the repository: they are parameters of
  the model. \<open>encodeURIComponent\<close> and \<open>cookie_serialize\<close> are the results for a string
  without lone surrogates; that they throw on any other is added below.
\<close>

record lib =
  cookie_parse :: "string \<Rightarrow> string \<rightharpoonup> string"
  cookie_serialize :: "string \<Rightarrow> string \<Rightarrow> cookie_options \<Rightarrow> string"
  decodeURIComponent :: "string \<Rightarrow> js_error + string"
  encodeURIComponent :: "string \<Rightarrow> string"
  querystring_parse :: "string \<Rightarrow> string \<rightharpoonup> js"
  JSON_parse :: "string \<Rightarrow> js_error + js"
  JSON_stringify :: "js \<Rightarrow> string"
  toUTCString :: "int \<Rightarrow> string"
  URL_toString :: "string \<Rightarrow> (string \<times> string) list \<Rightarrow> string"
  sha256 :: "nat list \<Rightarrow> nat list"

text \<open>
  The Netlify event, restricted to the fields the handlers read. Netlify hands every
  invocation a \<open>queryStringParameters\<close> object of strings and a \<open>headers\<close> object; a
  parameter, the \<open>cookie\<close> header or the body may be missing.
\<close>

record event =
  httpMethod :: string
  queryStringParameters :: "string \<rightharpoonup> string"
  cookie_header :: "string option"    \<comment> \<open>\<open>event.headers.cookie\<close>\<close>
  event_body :: "string option"       \<comment> \<open>\<open>event.body\<close>\<close>

record response =
  statusCode :: nat
  headers :: "(string \<times> string) list"
  body :: "string option"

text \<open>\<open>process.env\<close>.\<close>

record process_env =
  XERO_CLIENT_ID :: "string option"
  XERO_CLIENT_SECRET :: "string option"
  URL :: "string option"

text \<open>
  An outbound \<open>fetch\<close>: the URL, the method, the headers and the fields handed to
  \<open>querystring.stringify\<close> for the body.
\<close>

record request =
  url :: string
  req_method :: string
  req_headers :: "(string \<times> string) list"
  form :: "(string \<times> js) list"

text \<open>
  What a \<open>fetch\<close> resolves to: the status, the body text (\<open>.text()\<close>) and the payload
  \<open>.json()\<close> yields, at the type the provider documents, or the error it rejects with.
\<close>

record 'a http_response =
  status :: nat
  body_text :: string
  json :: "js_error + 'a"

definition ok :: "'a http_response \<Rightarrow> bool" where
  "ok r = (200 \<le> status r \<and> status r \<le> 299)"

record token_data =
  access_token :: "string option"
  refresh_token :: "string option"
  expires_in :: "int option"
  id_token :: "string option"

record connection =
  tenantId :: "string option"
  tenantName :: "string option"

text \<open>
  The world outside an invocation: the environment, the clock (\<open>Date.now()\<close>), the
  provider's two endpoints (a \<open>fetch\<close> that rejects yields \<open>Inl\<close>) and the bytes that
  \<open>crypto.randomBytes(n)\<close> draws.
\<close>

record world =
  env :: process_env
  now :: int
  fetch_token :: "request \<Rightarrow> js_error + token_data http_response"
  fetch_connections :: "request \<Rightarrow> js_error + connection list http_response"
  randomBytes :: "nat \<Rightarrow> nat list"

section \<open>String helpers\<close>

definition digit_char :: "nat \<Rightarrow> char" where
  "digit_char n = ''0123456789ABCDEF'' ! (n mod 16)"

text \<open>Decimal rendering of a number, as a template literal does it.\<close>

function show_digits :: "nat \<Rightarrow> string \<Rightarrow> string" where
  "show_digits n acc =
     (if n < 10 then digit_char n # acc
      else show_digits (n div 10) (digit_char (n mod 10) # acc))"
  by pat_completeness auto
termination
  by (relation "measure fst") auto

declare show_digits.simps [simp del]

definition show_nat :: "nat \<Rightarrow> string" where
  "show_nat n = show_digits n []"

function show_int_digits :: "int \<Rightarrow> string \<Rightarrow> string" where
  "show_int_digits n acc =
     (if n < 10 then digit_char (nat n) # acc
      else show_int_digits (n div 10) (digit_char (nat (n mod 10)) # acc))"
  by pat_completeness auto
termination
  by (relation "measure (\<lambda>p. nat (fst p))") auto

declare show_int_digits.simps [simp del]

definition show_int :: "int \<Rightarrow> string" where
  "show_int i = (if i < 0 then CHR ''-'' # show_int_digits (- i) [] else show_int_digits i [])"

fun split_on :: "char \<Rightarrow> string \<Rightarrow> string list" where
  "split_on d [] = [[]]"
| "split_on d (c # cs) =
     (if c = d then [] # split_on d cs
      else (case split_on d cs of [] \<Rightarrow> [[c]] | w # ws \<Rightarrow> (c # w) # ws))"

fun join :: "string \<Rightarrow> string list \<Rightarrow> string" where
  "join d [] = []"
| "join d [w] = w"
| "join d (w # ws) = w @ d @ join d ws"

text \<open>A string slot inside a template literal: \<open>undefined\<close> prints as its name.\<close>

definition template_str :: "string option \<Rightarrow> string" where
  "template_str v = (case v of None \<Rightarrow> ''undefined'' | Some s \<Rightarrow> s)"

text \<open>\<open>s.replace(/c/g, r)\<close> for a single character \<open>c\<close>.\<close>

definition replace_all :: "char \<Rightarrow> string \<Rightarrow> string \<Rightarrow> string" where
  "replace_all c r s = concat (map (\<lambda>x. if x = c then r else [x]) s)"

text \<open>\<open>Buffer.toString('hex')\<close>.\<close>

definition hex_encode :: "nat list \<Rightarrow> string" where
  "hex_encode bs =
     concat (map (\<lambda>b. [''0123456789abcdef'' ! ((b div 16) mod 16), ''0123456789abcdef'' ! (b mod 16)]) bs)"

text \<open>A string is well-formed when it holds no lone surrogate.\<close>

fun well_formed :: "string \<Rightarrow> bool" where
  "well_formed (a # b # cs) =
     (if a = CHR 0xED \<and> 0xA0 \<le> (of_char b :: nat) \<and> (of_char b :: nat) \<le> 0xBF then False
      else well_formed (b # cs))"
| "well_formed cs = True"

text \<open>
  The built-in \<open>encodeURIComponent\<close> throws a URIError on a lone surrogate, and so does
  \<open>cookie.serialize\<close>, which encodes the cookie value with it.
\<close>

definition js_encodeURIComponent :: "lib \<Rightarrow> string \<Rightarrow> js_error + string" where
  "js_encodeURIComponent L s =
     (if well_formed s then Inr (encodeURIComponent L s) else Inl (JsError ''URI malformed''))"

definition js_cookie_serialize ::
  "lib \<Rightarrow> string \<Rightarrow> string \<Rightarrow> cookie_options \<Rightarrow> js_error + string" where
  "js_cookie_serialize L name val opt =
     (if well_formed val then Inr (cookie_serialize L name val opt)
      else Inl (JsError ''URI malformed''))"

text \<open>Evaluation in sequence: an exception in the first step skips the rest.\<close>

definition and_then :: "js_error + 'a \<Rightarrow> ('a \<Rightarrow> js_error + 'b) \<Rightarrow> js_error + 'b" where
  "and_then x f = (case x of Inl e \<Rightarrow> Inl e | Inr v \<Rightarrow> f v)"

section \<open>Base64 (Buffer.toString('base64'))\<close>

definition b64_alphabet :: string where
  "b64_alphabet = ''ABCDEFGHIJKLMNOPQRSTUVWXYZabcdefghijklmnopqrstuvwxyz0123456789+/''"

definition b64_char :: "nat \<Rightarrow> char" where
  "b64_char n = b64_alphabet ! (n mod 64)"

fun base64_bytes :: "nat list \<Rightarrow> string" where
  "base64_bytes [] = []"
| "base64_bytes [a] =
     [b64_char (a div 4), b64_char ((a mod 4) * 16), CHR ''='', CHR ''='']"
| "base64_bytes [a, b] =
     [b64_char (a div 4), b64_char ((a mod 4) * 16 + b div 16),
      b64_char ((b mod 16) * 4), CHR ''='']"
| "base64_bytes (a # b # c # rest) =
     [b64_char (a div 4), b64_char ((a mod 4) * 16 + b div 16),
      b64_char ((b mod 16) * 4 + c div 64), b64_char (c mod 64)] @ base64_bytes rest"

definition utf8_bytes :: "string \<Rightarrow> nat list" where
  "utf8_bytes s = map of_char s"

definition base64 :: "string \<Rightarrow> string" where
  "base64 s = base64_bytes (utf8_bytes s)"

section \<open>xero-refresh.js\<close>

definition refresh_corsHeaders :: "(string \<times> string) list" where
  "refresh_corsHeaders =
     [(''Access-Control-Allow-Origin'', ''*''),
      (''Access-Control-Allow-Headers'', ''Content-Type''),
      (''Access-Control-Allow-Methods'', ''POST, OPTIONS'')]"

definition refresh_token_request :: "string \<Rightarrow> string \<Rightarrow> js \<Rightarrow> request" where
  "refresh_token_request clientId clientSecret refreshToken =
     \<lparr>url = ''https://identity.xero.com/connect/token'',
      req_method = ''POST'',
      req_headers =
        [(''Content-Type'', ''application/x-www-form-urlencoded''),
         (''Authorization'', ''Basic '' @ base64 (clientId @ '':'' @ clientSecret))],
      form = [(''grant_type'', Str ''refresh_token''), (''refresh_token'', refreshToken)]\<rparr>"

text \<open>The body of the \<open>try\<close> block: the requests issued, and the response or the exception.\<close>

definition refresh_try :: "lib \<Rightarrow> world \<Rightarrow> event \<Rightarrow> request list \<times> (js_error + response)" where
  "refresh_try L W event =
     (if httpMethod event \<noteq> ''POST'' then
        ([], Inr \<lparr>statusCode = 405, headers = refresh_corsHeaders,
                  body = Some (JSON_stringify L (Obj [(''error'', Str ''Method not allowed'')]))\<rparr>)
      else case JSON_parse L (or_str (event_body event) ''{}'') of
        Inl e \<Rightarrow> ([], Inl e)
      | Inr requestData \<Rightarrow>
     (case get_prop requestData ''refresh_token'' of
        Inl e \<Rightarrow> ([], Inl e)
      | Inr refreshToken \<Rightarrow>
     (if \<not> truthy refreshToken then
        ([], Inr \<lparr>statusCode = 400, headers = refresh_corsHeaders,
                  body = Some (JSON_stringify L (Obj [(''error'', Str ''Refresh token is required'')]))\<rparr>)
      else
        let clientId = XERO_CLIENT_ID (env W);
            clientSecret = XERO_CLIENT_SECRET (env W)
        in
      if \<not> truthy_str clientId \<or> \<not> truthy_str clientSecret then
        ([], Inr \<lparr>statusCode = 500, headers = refresh_corsHeaders,
                  body = Some (JSON_stringify L (Obj [(''error'', Str ''Missing Xero credentials'')]))\<rparr>)
      else
        let tokenRequest = refresh_token_request (or_str clientId []) (or_str clientSecret []) refreshToken
        in
      case fetch_token W tokenRequest of
        Inl e \<Rightarrow> ([tokenRequest], Inl e)
      | Inr tokenResponse \<Rightarrow>
     (if \<not> ok tokenResponse then
        ([tokenRequest],
         Inr \<lparr>statusCode = status tokenResponse, headers = refresh_corsHeaders,
              body = Some (JSON_stringify L
                (Obj [(''error'', Str ''Failed to refresh token''),
                      (''details'', Str (body_text tokenResponse))]))\<rparr>)
      else case json tokenResponse of
        Inl e \<Rightarrow> ([tokenRequest], Inl e)
      | Inr tokenData \<Rightarrow>
        let expiresAt = (case expires_in tokenData of None \<Rightarrow> NaN
                         | Some s \<Rightarrow> Num (now W + s * 1000))
        in
        ([tokenRequest],
         Inr \<lparr>statusCode = 200,
              headers = refresh_corsHeaders @ [(''Content-Type'', ''application/json'')],
              body = Some (JSON_stringify L
                (Obj [(''access_token'', opt_js (access_token tokenData)),
                      (''refresh_token'', opt_js (refresh_token tokenData)),
                      (''expires_at'', expiresAt)]))\<rparr>)))))"

definition xero_refresh_handler :: "lib \<Rightarrow> world \<Rightarrow> event \<Rightarrow> request list \<times> response" where
  "xero_refresh_handler L W event =
     (if httpMethod event = ''OPTIONS'' then
        ([], \<lparr>statusCode = 204, headers = refresh_corsHeaders, body = None\<rparr>)
      else case refresh_try L W event of
        (reqs, Inr r) \<Rightarrow> (reqs, r)
      | (reqs, Inl error) \<Rightarrow>
          (reqs, \<lparr>statusCode = 500, headers = refresh_corsHeaders,
                  body = Some (JSON_stringify L
                    (Obj [(''error'', Str ''Server error''),
                          (''message'', Str (message error))]))\<rparr>))"

section \<open>xero-callback.js\<close>

text \<open>The helper throws when \<open>encodeURIComponent\<close> throws on the message.\<close>

definition redirectWithError :: "lib \<Rightarrow> string \<Rightarrow> js_error + response" where
  "redirectWithError L msg =
     and_then (js_encodeURIComponent L msg) (\<lambda>encoded.
       Inr \<lparr>statusCode = 302,
            headers = [(''Location'', ''/?auth=error&message='' @ encoded),
                       (''Cache-Control'', ''no-cache'')],
            body = None\<rparr>)"

text \<open>
  \<open>connections.length > 0 ? connections[0].tenantId : null\<close> and its sibling for the
  name; \<open>None\<close> is \<open>null\<close>.
\<close>

definition active_tenantId :: "connection list \<Rightarrow> string option" where
  "active_tenantId connections =
     (if length connections > 0 then tenantId (hd connections) else None)"

definition active_tenantName :: "connection list \<Rightarrow> string option" where
  "active_tenantName connections =
     (if length connections > 0 then tenantName (hd connections)
      else Some ''Unknown Organization'')"

definition cookieOptions :: cookie_options where
  "cookieOptions =
     \<lparr>path = ''/'', secure = True, httpOnly = True, sameSite = ''Lax'',
      maxAge = 30 * 24 * 60 * 60, expires = None\<rparr>"

text \<open>\<open>tokenData.id_token.split('.')[1] || ''\<close>.\<close>

definition id_token_payload :: "string \<Rightarrow> string" where
  "id_token_payload t = (case split_on CHR ''.'' t of a # b # rest \<Rightarrow> b | _ \<Rightarrow> [])"

text \<open>
  The cookie strings the handler constructs after the tenant selection: \<open>authCookie\<close>,
  \<open>tenantIdCookie\<close>, \<open>tenantNameCookie\<close>, \<open>userIdCookie\<close> and \<open>clearAuthCookie\<close>.
\<close>

definition session_cookies ::
  "lib \<Rightarrow> token_data \<Rightarrow> connection list \<Rightarrow> js_error + string list" where
  "session_cookies L tokenData connections =
     and_then (js_cookie_serialize L ''xero_authenticated'' ''true'' cookieOptions)
       (\<lambda>authCookie.
     and_then (js_cookie_serialize L ''xero_tenant_id''
                 (or_str (active_tenantId connections) []) cookieOptions)
       (\<lambda>tenantIdCookie.
     and_then (js_cookie_serialize L ''xero_tenant_name''
                 (or_str (active_tenantName connections) []) cookieOptions)
       (\<lambda>tenantNameCookie.
     and_then (if truthy_str (id_token tokenData)
               then js_cookie_serialize L ''xero_user_id''
                      (id_token_payload (or_str (id_token tokenData) [])) cookieOptions
               else Inr [])
       (\<lambda>userIdCookie.
     and_then (js_cookie_serialize L ''xero_auth'' [] (cookieOptions\<lparr>expires := Some 0\<rparr>))
       (\<lambda>clearAuthCookie.
     Inr [authCookie, tenantIdCookie, tenantNameCookie, userIdCookie, clearAuthCookie])))))"

definition orgData :: "connection list \<Rightarrow> js" where
  "orgData connections =
     Arr (map (\<lambda>conn. Obj [(''tenantId'', opt_js (tenantId conn)),
                             (''tenantName'',
                              Str (or_str (tenantName conn) ''Unnamed Organization''))])
            connections)"

definition token_bundle :: "world \<Rightarrow> token_data \<Rightarrow> js" where
  "token_bundle W tokenData =
     Obj [(''access_token'', opt_js (access_token tokenData)),
          (''refresh_token'', opt_js (refresh_token tokenData)),
          (''expires_at'', case expires_in tokenData of None \<Rightarrow> NaN
                           | Some s \<Rightarrow> Num (now W + s * 1000))]"

text \<open>
  From the construction of the cookies to the object returned at the end of the \<open>try\<close>
  block; \<open>Inl\<close> when one of the encodings throws.
\<close>

definition callback_success ::
  "lib \<Rightarrow> world \<Rightarrow> token_data \<Rightarrow> connection list \<Rightarrow> js_error + response" where
  "callback_success L W tokenData connections =
     and_then (session_cookies L tokenData connections) (\<lambda>cookies.
     and_then (js_encodeURIComponent L (or_str (active_tenantName connections) ''Unknown''))
       (\<lambda>tenantNameParam.
     and_then (js_encodeURIComponent L (or_str (active_tenantId connections) []))
       (\<lambda>tenantIdParam.
     and_then (js_encodeURIComponent L (JSON_stringify L (orgData connections)))
       (\<lambda>tenantsParam.
     and_then (js_encodeURIComponent L (JSON_stringify L (token_bundle W tokenData)))
       (\<lambda>tokensParam.
     Inr \<lparr>statusCode = 302,
          headers =
            [(''Location'',
              ''/?auth=success&tenantName='' @ tenantNameParam
              @ ''&tenantId='' @ tenantIdParam
              @ ''&multipleOrgs='' @ (if length connections > 1 then ''true'' else ''false'')
              @ ''&tenants='' @ tenantsParam
              @ ''&tokens='' @ tokensParam),
             (''Cache-Control'', ''no-cache'')],
          body = None\<rparr>)))))"

definition callback_redirectUri :: "world \<Rightarrow> string" where
  "callback_redirectUri W =
     or_str (URL (env W)) ''http://localhost:8888'' @ ''/.netlify/functions/xero-callback''"

definition callback_token_request :: "world \<Rightarrow> string \<Rightarrow> js \<Rightarrow> string \<Rightarrow> string \<Rightarrow> request" where
  "callback_token_request W code codeVerifier clientId clientSecret =
     \<lparr>url = ''https://identity.xero.com/connect/token'',
      req_method = ''POST'',
      req_headers =
        [(''Content-Type'', ''application/x-www-form-urlencoded''),
         (''Authorization'', ''Basic '' @ base64 (clientId @ '':'' @ clientSecret))],
      form = [(''grant_type'', Str ''authorization_code''),
              (''code'', Str code),
              (''redirect_uri'', Str (callback_redirectUri W)),
              (''code_verifier'', codeVerifier)]\<rparr>"

definition connections_request :: "token_data \<Rightarrow> request" where
  "connections_request tokenData =
     \<lparr>url = ''https://api.xero.com/connections'',
      req_method = ''GET'',
      req_headers =
        [(''Authorization'', ''Bearer '' @ template_str (access_token tokenData)),
         (''Accept'', ''application/json'')],
      form = []\<rparr>"

text \<open>
  From the tenant fetch to the end of the \<open>try\<close> block; \<open>reqs\<close> are the requests
  issued so far.
\<close>

definition fetch_user_info ::
  "lib \<Rightarrow> world \<Rightarrow> request list \<Rightarrow> token_data \<Rightarrow> request list \<times> (js_error + response)" where
  "fetch_user_info L W reqs tokenData =
     (let reqs' = reqs @ [connections_request tokenData]
      in case fetch_connections W (connections_request tokenData) of
           Inl e \<Rightarrow> (reqs', Inl e)
         | Inr userInfoResponse \<Rightarrow>
             if \<not> ok userInfoResponse then
               (reqs', redirectWithError L
                         ''Connected to Xero, but failed to get user details'')
             else (case json userInfoResponse of
                     Inl e \<Rightarrow> (reqs', Inl e)
                   | Inr connections \<Rightarrow>
                       (reqs', callback_success L W tokenData connections)))"

text \<open>From the token exchange on.\<close>

definition exchange_code ::
  "lib \<Rightarrow> world \<Rightarrow> string \<Rightarrow> js \<Rightarrow> string \<Rightarrow> string \<Rightarrow> request list \<times> (js_error + response)" where
  "exchange_code L W code codeVerifier clientId clientSecret =
     (let tokenRequest = callback_token_request W code codeVerifier clientId clientSecret
      in case fetch_token W tokenRequest of
           Inl e \<Rightarrow> ([tokenRequest], Inl e)
         | Inr tokenResponse \<Rightarrow>
             if \<not> ok tokenResponse then
               ([tokenRequest],
                redirectWithError L
                  (''Failed to exchange code for tokens (''
                   @ show_nat (status tokenResponse) @ '')''))
             else (case json tokenResponse of
                     Inl e \<Rightarrow> ([tokenRequest], Inl e)
                   | Inr tokenData \<Rightarrow> fetch_user_info L W [tokenRequest] tokenData))"

text \<open>A property of the object \<open>querystring.parse\<close> returns; a missing one is \<open>undefined\<close>.\<close>

definition qs_get :: "(string \<rightharpoonup> js) \<Rightarrow> string \<Rightarrow> js" where
  "qs_get obj k = (case obj k of None \<Rightarrow> Undefined | Some v \<Rightarrow> v)"

text \<open>
  The body of the \<open>try\<close> block: the validation sequence, then the exchange. \<open>Inl\<close> is
  an exception thrown in the block, by a step or by the helper in a \<open>return\<close>.
\<close>

definition callback_try :: "lib \<Rightarrow> world \<Rightarrow> event \<Rightarrow> request list \<times> (js_error + response)" where
  "callback_try L W event =
     (let params = queryStringParameters event in
      if truthy_str (params ''error'') then
        ([], redirectWithError L
               (''Authentication error: ''
                @ (if truthy_str (params ''error_description'')
                   then template_str (params ''error_description'')
                   else template_str (params ''error''))))
      else if \<not> truthy_str (params ''code'') then
        ([], redirectWithError L ''No authorization code received from Xero'')
      else if \<not> truthy_str (params ''state'') then
        ([], redirectWithError L ''Invalid authentication request (missing state)'')
      else
        let code = or_str (params ''code'') [];
            receivedState = or_str (params ''state'') [];
            cookies = cookie_parse L (or_str (cookie_header event) []);
            xeroCookie = cookies ''xero_auth''
        in
      if \<not> truthy_str xeroCookie then
        ([], redirectWithError L ''Authentication session expired or invalid'')
      else
       (case decodeURIComponent L (or_str xeroCookie []) of
          Inl e \<Rightarrow> ([], Inl e)
        | Inr decoded \<Rightarrow>
            let cookieData = querystring_parse L decoded;
                storedState = qs_get cookieData ''state'';
                codeVerifier = qs_get cookieData ''code_verifier''
            in
            if Str receivedState \<noteq> storedState then
              ([], redirectWithError L ''Invalid authentication request (state mismatch)'')
            else
              let clientId = XERO_CLIENT_ID (env W);
                  clientSecret = XERO_CLIENT_SECRET (env W)
              in
            if \<not> truthy_str clientId \<or> \<not> truthy_str clientSecret then
              ([], redirectWithError L
                     ''Server configuration error (missing Xero credentials)'')
            else exchange_code L W code codeVerifier
                   (or_str clientId []) (or_str clientSecret [])))"

text \<open>
  The \<open>catch\<close> block, applied to the outcome of the \<open>try\<close> block: it answers an
  exception with the helper's redirect, and throws in turn when the helper does.
\<close>

definition caught :: "lib \<Rightarrow> js_error + response \<Rightarrow> js_error + response" where
  "caught L outcome =
     (case outcome of
        Inr r \<Rightarrow> Inr r
      | Inl error \<Rightarrow> redirectWithError L (''Server error: '' @ message error))"

text \<open>
  The exported handler: the requests issued, and the response returned or the exception
  the invocation rejects with.
\<close>

definition xero_callback_handler ::
  "lib \<Rightarrow> world \<Rightarrow> event \<Rightarrow> request list \<times> (js_error + response)" where
  "xero_callback_handler L W event =
     (case callback_try L W event of (reqs, outcome) \<Rightarrow> (reqs, caught L outcome))"

section \<open>xero-auth.js\<close>

definition scope :: string where
  "scope = join '' '' [''openid'', ''profile'', ''email'', ''offline_access'',
                       ''accounting.transactions.read'', ''accounting.settings.read'']"

text \<open>The PKCE code challenge derived from the code verifier.\<close>

definition codeChallenge :: "lib \<Rightarrow> string \<Rightarrow> string" where
  "codeChallenge L codeVerifier =
     replace_all CHR ''='' []
       (replace_all CHR ''/'' ''_''
         (replace_all CHR ''+'' ''-''
           (base64_bytes (sha256 L (utf8_bytes codeVerifier)))))"

definition auth_redirectUri :: "world \<Rightarrow> string" where
  "auth_redirectUri W =
     (let baseUrl = or_str (URL (env W)) ''http://localhost:8888''
      in baseUrl @ ''/.netlify/functions/xero-callback'')"

text \<open>The parameters appended to \<open>xeroAuthUrl.searchParams\<close>, in order.\<close>

definition xeroAuthUrl_params :: "lib \<Rightarrow> world \<Rightarrow> string \<Rightarrow> (string \<times> string) list" where
  "xeroAuthUrl_params L W clientId =
     (let state = hex_encode (randomBytes W 16);
          codeVerifier = hex_encode (randomBytes W 32)
      in [(''client_id'', clientId),
          (''response_type'', ''code''),
          (''redirect_uri'', auth_redirectUri W),
          (''scope'', scope),
          (''state'', state),
          (''code_challenge'', codeChallenge L codeVerifier),
          (''code_challenge_method'', ''S256'')])"

definition auth_cookieHeader :: "lib \<Rightarrow> world \<Rightarrow> js_error + string" where
  "auth_cookieHeader L W =
     (let state = hex_encode (randomBytes W 16);
          codeVerifier = hex_encode (randomBytes W 32);
          cookieExpiresDate = now W + 1000 * 60 * 15;
          cookieValue = ''state='' @ state @ ''&code_verifier='' @ codeVerifier
      in and_then (js_encodeURIComponent L cookieValue) (\<lambda>encoded.
           Inr (''xero_auth='' @ encoded @ ''; Path=/; Expires=''
                @ toUTCString L cookieExpiresDate @ ''; SameSite=Lax; HttpOnly; Secure'')))"

definition auth_try :: "lib \<Rightarrow> world \<Rightarrow> js_error + response" where
  "auth_try L W =
     (let clientId = XERO_CLIENT_ID (env W) in
      if \<not> truthy_str clientId then
        Inl (JsError ''Missing XERO_CLIENT_ID environment variable'')
      else
        and_then (auth_cookieHeader L W) (\<lambda>cookieHeader.
          Inr \<lparr>statusCode = 302,
               headers =
                 [(''Location'',
                   URL_toString L ''https://login.xero.com/identity/connect/authorize''
                     (xeroAuthUrl_params L W (or_str clientId []))),
                  (''Set-Cookie'', cookieHeader),
                  (''Cache-Control'', ''no-cache'')],
               body = None\<rparr>))"

definition xero_auth_handler :: "lib \<Rightarrow> world \<Rightarrow> response" where
  "xero_auth_handler L W =
     (case auth_try L W of
        Inr r \<Rightarrow> r
      | Inl error \<Rightarrow>
          \<lparr>statusCode = 500,
           headers = [(''Content-Type'', ''application/json'')],
           body = Some (JSON_stringify L
                    (Obj [(''error'', Str ''Server error''),
                          (''message'', Str (message error))]))\<rparr>)"

section \<open>xero-connections.js\<close>

definition connections_corsHeaders :: "(string \<times> string) list" where
  "connections_corsHeaders =
     [(''Access-Control-Allow-Origin'', ''*''),
      (''Access-Control-Allow-Headers'', ''Content-Type''),
      (''Access-Control-Allow-Methods'', ''GET, OPTIONS'')]"

definition xero_connections_handler :: "lib \<Rightarrow> event \<Rightarrow> response" where
  "xero_connections_handler L event =
     (if httpMethod event = ''OPTIONS'' then
        \<lparr>statusCode = 204, headers = connections_corsHeaders, body = None\<rparr>
      else
        let cookies = cookie_parse L (or_str (cookie_header event) []);
            isAuthenticated = (cookies ''xero_authenticated'' = Some ''true'')
        in
      if \<not> isAuthenticated then
        \<lparr>statusCode = 401, headers = connections_corsHeaders,
         body = Some (JSON_stringify L
                  (Obj [(''error'', Str ''Unauthorized''),
                        (''message'', Str ''Please connect to Xero first'')]))\<rparr>
      else if \<not> truthy_str (cookies ''xero_tenant_id'') then
        \<lparr>statusCode = 404, headers = connections_corsHeaders,
         body = Some (JSON_stringify L
                  (Obj [(''error'', Str ''Not Found''),
                        (''message'',
                         Str ''No Xero organization found. Please reconnect to Xero.'')]))\<rparr>
      else
        \<lparr>statusCode = 200,
         headers = connections_corsHeaders @ [(''Content-Type'', ''application/json'')],
         body = Some (JSON_stringify L
                  (Arr [Obj [(''tenantId'', opt_js (cookies ''xero_tenant_id'')),
                             (''tenantName'',
                              Str (or_str (cookies ''xero_tenant_name'')
                                     ''Xero Organization''))]]))\<rparr>)"

section \<open>A model of the Node.js libraries\<close>

text \<open>
  An executable instance of \<open>lib\<close>, used to run the handlers on concrete requests. It
  follows the documented behaviour of \<open>encodeURIComponent\<close>, \<open>decodeURIComponent\<close>,
  \<open>cookie.parse\<close>, \<open>cookie.serialize\<close>, \<open>querystring.parse\<close>, \<open>JSON.parse\<close> and
  \<open>JSON.stringify\<close> on byte strings.
\<close>

definition dquote :: char where
  "dquote = CHR 0x22"

definition backslash :: char where
  "backslash = CHR 0x5C"

definition is_digit :: "char \<Rightarrow> bool" where
  "is_digit c = (48 \<le> (of_char c :: nat) \<and> (of_char c :: nat) \<le> 57)"

definition hex_val :: "char \<Rightarrow> nat option" where
  "hex_val c =
     (let n = (of_char c :: nat) in
      if 48 \<le> n \<and> n \<le> 57 then Some (n - 48)
      else if 65 \<le> n \<and> n \<le> 70 then Some (n - 55)
      else if 97 \<le> n \<and> n \<le> 102 then Some (n - 87)
      else None)"

subsection \<open>URI coding\<close>

definition uri_unreserved :: "char \<Rightarrow> bool" where
  "uri_unreserved c =
     (c \<in> set ''ABCDEFGHIJKLMNOPQRSTUVWXYZabcdefghijklmnopqrstuvwxyz0123456789-_.!~*()''
      \<or> c = CHR 0x27)"

definition pct_encode :: "char \<Rightarrow> string" where
  "pct_encode c =
     [CHR ''%'', digit_char ((of_char c :: nat) div 16), digit_char ((of_char c :: nat) mod 16)]"

definition node_encodeURIComponent :: "string \<Rightarrow> string" where
  "node_encodeURIComponent s =
     concat (map (\<lambda>c. if uri_unreserved c then [c] else pct_encode c) s)"

text \<open>
  Decoding yields the bytes with a mark on those that came from an escape; a \<open>%\<close>
  that two hexadecimal digits do not follow is malformed.
\<close>

fun uri_tokens :: "string \<Rightarrow> (bool \<times> nat) list option" where
  "uri_tokens [] = Some []"
| "uri_tokens (c # cs) =
     (if c = CHR ''%'' then
        (case cs of
           h1 # h2 # rest \<Rightarrow>
             (case (hex_val h1, hex_val h2) of
                (Some a, Some b) \<Rightarrow> map_option ((#) (True, a * 16 + b)) (uri_tokens rest)
              | _ \<Rightarrow> None)
         | _ \<Rightarrow> None)
      else map_option ((#) (False, of_char c)) (uri_tokens cs))"

definition is_cont :: "nat \<Rightarrow> nat \<Rightarrow> bool \<times> nat \<Rightarrow> bool" where
  "is_cont lo hi t = (fst t \<and> lo \<le> snd t \<and> snd t \<le> hi)"

text \<open>The escaped bytes must be well-formed UTF-8.\<close>

fun utf8_escapes :: "(bool \<times> nat) list \<Rightarrow> bool" where
  "utf8_escapes [] = True"
| "utf8_escapes ((esc, b) # ts) =
     (if \<not> esc \<or> b < 0x80 then utf8_escapes ts
      else if 0xC2 \<le> b \<and> b \<le> 0xDF then
        (case ts of
           t1 # r \<Rightarrow> if is_cont 0x80 0xBF t1 then utf8_escapes r else False
         | _ \<Rightarrow> False)
      else if 0xE0 \<le> b \<and> b \<le> 0xEF then
        (case ts of
           t1 # t2 # r \<Rightarrow>
             if is_cont (if b = 0xE0 then 0xA0 else 0x80) (if b = 0xED then 0x9F else 0xBF) t1
                \<and> is_cont 0x80 0xBF t2
             then utf8_escapes r else False
         | _ \<Rightarrow> False)
      else if 0xF0 \<le> b \<and> b \<le> 0xF4 then
        (case ts of
           t1 # t2 # t3 # r \<Rightarrow>
             if is_cont (if b = 0xF0 then 0x90 else 0x80) (if b = 0xF4 then 0x8F else 0xBF) t1
                \<and> is_cont 0x80 0xBF t2 \<and> is_cont 0x80 0xBF t3
             then utf8_escapes r else False
         | _ \<Rightarrow> False)
      else False)"

definition node_decodeURIComponent :: "string \<Rightarrow> js_error + string" where
  "node_decodeURIComponent s =
     (case uri_tokens s of
        None \<Rightarrow> Inl (JsError ''URI malformed'')
      | Some ts \<Rightarrow>
          if utf8_escapes ts then Inr (map (\<lambda>t. char_of (snd t)) ts)
          else Inl (JsError ''URI malformed''))"

text \<open>
  \<open>querystring.unescape\<close> falls back to a lenient decoder when decoding throws; the
  bytes it yields are kept as they are.
\<close>

fun unescape_lenient :: "string \<Rightarrow> string" where
  "unescape_lenient [] = []"
| "unescape_lenient (c # cs) =
     (if c = CHR ''%'' then
        (case cs of
           h1 # h2 # rest \<Rightarrow>
             (case (hex_val h1, hex_val h2) of
                (Some a, Some b) \<Rightarrow> char_of (a * 16 + b) # unescape_lenient rest
              | _ \<Rightarrow> c # unescape_lenient cs)
         | _ \<Rightarrow> c # unescape_lenient cs)
      else c # unescape_lenient cs)"

definition qs_unescape :: "string \<Rightarrow> string" where
  "qs_unescape s =
     (case node_decodeURIComponent s of Inr d \<Rightarrow> d | Inl e \<Rightarrow> unescape_lenient s)"

subsection \<open>querystring.parse\<close>

definition qs_pair :: "string \<Rightarrow> string \<times> string" where
  "qs_pair p =
     (let spaced = map (\<lambda>c. if c = CHR ''+'' then CHR '' '' else c) p
      in (qs_unescape (takeWhile (\<lambda>c. c \<noteq> CHR ''='') spaced),
          qs_unescape (drop 1 (dropWhile (\<lambda>c. c \<noteq> CHR ''='') spaced))))"

definition qs_add :: "(string \<times> js) list \<Rightarrow> string \<times> string \<Rightarrow> (string \<times> js) list" where
  "qs_add obj kv =
     (case map_of obj (fst kv) of
        None \<Rightarrow> obj @ [(fst kv, Str (snd kv))]
      | Some old \<Rightarrow>
          map (\<lambda>(k, x). if k = fst kv
                 then (k, case x of Arr xs \<Rightarrow> Arr (xs @ [Str (snd kv)])
                                  | _ \<Rightarrow> Arr [x, Str (snd kv)])
                 else (k, x)) obj)"

definition node_querystring_parse :: "string \<Rightarrow> string \<rightharpoonup> js" where
  "node_querystring_parse s =
     map_of (foldl qs_add [] (map qs_pair (filter (\<lambda>p. p \<noteq> []) (split_on CHR ''&'' s))))"

subsection \<open>cookie.parse\<close>

definition is_blank :: "char \<Rightarrow> bool" where
  "is_blank c = (c = CHR '' '' \<or> c = CHR 0x09)"

definition trim :: "string \<Rightarrow> string" where
  "trim s = rev (dropWhile is_blank (rev (dropWhile is_blank s)))"

definition cookie_pair :: "string \<Rightarrow> (string \<times> string) option" where
  "cookie_pair p =
     (if CHR ''='' \<notin> set p then None
      else
        let key = trim (takeWhile (\<lambda>c. c \<noteq> CHR ''='') p);
            val = trim (drop 1 (dropWhile (\<lambda>c. c \<noteq> CHR ''='') p));
            unquoted = (if take 1 val = [dquote] then butlast (drop 1 val) else val)
        in Some (key, case node_decodeURIComponent unquoted of Inr d \<Rightarrow> d | Inl e \<Rightarrow> unquoted))"

definition node_cookie_parse :: "string \<Rightarrow> string \<rightharpoonup> string" where
  "node_cookie_parse s = map_of (List.map_filter cookie_pair (split_on CHR '';'' s))"

subsection \<open>JSON.stringify\<close>

definition json_escape :: "char \<Rightarrow> string" where
  "json_escape c =
     (let n = (of_char c :: nat) in
      if c = dquote then [backslash, dquote]
      else if c = backslash then [backslash, backslash]
      else if n = 8 then [backslash, CHR ''b'']
      else if n = 9 then [backslash, CHR ''t'']
      else if n = 10 then [backslash, CHR ''n'']
      else if n = 12 then [backslash, CHR ''f'']
      else if n = 13 then [backslash, CHR ''r'']
      else if n < 32 then
        [backslash, CHR ''u'', CHR ''0'', CHR ''0'', digit_char (n div 16),
         ''0123456789abcdef'' ! (n mod 16)]
      else [c])"

definition json_quote :: "string \<Rightarrow> string" where
  "json_quote s = dquote # concat (map json_escape s) @ [dquote]"

text \<open>\<open>None\<close> is the \<open>undefined\<close> that an object drops and an array prints as \<open>null\<close>.\<close>

fun js_stringify :: "js \<Rightarrow> string option" where
  "js_stringify Undefined = None"
| "js_stringify Null = Some ''null''"
| "js_stringify (Bool b) = Some (if b then ''true'' else ''false'')"
| "js_stringify (Num n) = Some (show_int n)"
| "js_stringify NaN = Some ''null''"
| "js_stringify (Str s) = Some (json_quote s)"
| "js_stringify (Arr xs) =
     Some (''['' @ join '','' (map (\<lambda>x. case js_stringify x of None \<Rightarrow> ''null'' | Some t \<Rightarrow> t) xs)
           @ '']'')"
| "js_stringify (Obj kvs) =
     Some (''{'' @ join '',''
             (concat (map (\<lambda>(k, v). case js_stringify v of None \<Rightarrow> []
                                     | Some t \<Rightarrow> [json_quote k @ '':'' @ t]) kvs))
           @ ''}'')"

definition node_JSON_stringify :: "js \<Rightarrow> string" where
  "node_JSON_stringify v = (case js_stringify v of None \<Rightarrow> ''undefined'' | Some t \<Rightarrow> t)"

subsection \<open>JSON.parse\<close>

definition is_json_ws :: "char \<Rightarrow> bool" where
  "is_json_ws c = (c = CHR '' '' \<or> c = CHR 0x09 \<or> c = CHR 0x0A \<or> c = CHR 0x0D)"

definition skip_ws :: "string \<Rightarrow> string" where
  "skip_ws s = dropWhile is_json_ws s"

definition utf8_encode :: "nat \<Rightarrow> string" where
  "utf8_encode n =
     (if n < 0x80 then [char_of n]
      else if n < 0x800 then [char_of (0xC0 + n div 64), char_of (0x80 + n mod 64)]
      else if n < 0x10000 then
        [char_of (0xE0 + n div 4096), char_of (0x80 + (n div 64) mod 64),
         char_of (0x80 + n mod 64)]
      else [char_of (0xF0 + n div 262144), char_of (0x80 + (n div 4096) mod 64),
            char_of (0x80 + (n div 64) mod 64), char_of (0x80 + n mod 64)])"

text \<open>The code unit of a \<open>\uXXXX\<close> escape, from its four digits.\<close>

definition hex4 :: "string \<Rightarrow> nat option" where
  "hex4 ds =
     (case map hex_val ds of
        [Some h1, Some h2, Some h3, Some h4] \<Rightarrow> Some (((h1 * 16 + h2) * 16 + h3) * 16 + h4)
      | _ \<Rightarrow> None)"

text \<open>
  The characters of a string literal after its opening quote, and the rest of the input.
  Two escapes that form a surrogate pair are one character; a surrogate on its own stays
  a lone surrogate.
\<close>

fun parse_string :: "string \<Rightarrow> string \<Rightarrow> (string \<times> string) option" where
  "parse_string acc [] = None"
| "parse_string acc [c] = (if c = dquote then Some (rev acc, []) else None)"
| "parse_string acc (c # d # cs) =
     (if c = dquote then Some (rev acc, d # cs)
      else if (of_char c :: nat) < 32 then None
      else if c = backslash then
        (if d = dquote \<or> d = backslash \<or> d = CHR ''/'' then parse_string (d # acc) cs
         else if d = CHR ''b'' then parse_string (CHR 0x08 # acc) cs
         else if d = CHR ''f'' then parse_string (CHR 0x0C # acc) cs
         else if d = CHR ''n'' then parse_string (CHR 0x0A # acc) cs
         else if d = CHR ''r'' then parse_string (CHR 0x0D # acc) cs
         else if d = CHR ''t'' then parse_string (CHR 0x09 # acc) cs
         else if d = CHR ''u'' then
           (case hex4 (take 4 cs) of
              None \<Rightarrow> None
            | Some hi \<Rightarrow>
                (case (if 0xD800 \<le> hi \<and> hi \<le> 0xDBFF
                          \<and> take 2 (drop 4 cs) = [backslash, CHR ''u'']
                       then hex4 (take 4 (drop 6 cs)) else None) of
                   Some lo \<Rightarrow>
                     if 0xDC00 \<le> lo \<and> lo \<le> 0xDFFF then
                       parse_string
                         (rev (utf8_encode (0x10000 + (hi - 0xD800) * 0x400 + (lo - 0xDC00)))
                          @ acc)
                         (drop 10 cs)
                     else parse_string (rev (utf8_encode hi) @ acc) (drop 4 cs)
                 | None \<Rightarrow> parse_string (rev (utf8_encode hi) @ acc) (drop 4 cs)))
         else None)
      else parse_string (c # acc) (d # cs))"

text \<open>An integral number literal; a fraction or an exponent has no value in \<open>js\<close>.\<close>

definition parse_number :: "string \<Rightarrow> (js \<times> string) option" where
  "parse_number s =
     (let neg = (take 1 s = ''-'');
          t = (if neg then drop 1 s else s);
          ds = takeWhile is_digit t;
          r = dropWhile is_digit t;
          n = foldl (\<lambda>a c. a * 10 + (of_char c - 48)) (0 :: nat) ds
      in if ds = [] \<or> (length ds > 1 \<and> hd ds = CHR ''0'') then None
         else if take 1 r = ''.'' \<or> take 1 r = ''e'' \<or> take 1 r = ''E'' then None
         else Some (Num (if neg then - int n else int n), r))"

text \<open>
  Recursive descent; the first argument bounds the number of nested calls and is
  taken larger than the input.
\<close>

fun parse_value :: "nat \<Rightarrow> string \<Rightarrow> (js \<times> string) option"
  and parse_elements :: "nat \<Rightarrow> js list \<Rightarrow> string \<Rightarrow> (js list \<times> string) option"
  and parse_members ::
    "nat \<Rightarrow> (string \<times> js) list \<Rightarrow> string \<Rightarrow> ((string \<times> js) list \<times> string) option"
where
  "parse_value 0 s = None"
| "parse_value (Suc n) s =
     (let t = skip_ws s in
      if take 1 t = ''{'' then
        (if take 1 (skip_ws (drop 1 t)) = ''}'' then Some (Obj [], drop 1 (skip_ws (drop 1 t)))
         else map_option (\<lambda>(kvs, r). (Obj kvs, r)) (parse_members n [] (drop 1 t)))
      else if take 1 t = ''['' then
        (if take 1 (skip_ws (drop 1 t)) = '']'' then Some (Arr [], drop 1 (skip_ws (drop 1 t)))
         else map_option (\<lambda>(xs, r). (Arr xs, r)) (parse_elements n [] (drop 1 t)))
      else if take 1 t = [dquote] then
        map_option (\<lambda>(str, r). (Str str, r)) (parse_string [] (drop 1 t))
      else if take 4 t = ''null'' then Some (Null, drop 4 t)
      else if take 4 t = ''true'' then Some (Bool True, drop 4 t)
      else if take 5 t = ''false'' then Some (Bool False, drop 5 t)
      else parse_number t)"
| "parse_elements 0 acc s = None"
| "parse_elements (Suc n) acc s =
     (case parse_value n s of
        None \<Rightarrow> None
      | Some (v, r) \<Rightarrow>
          (let t = skip_ws r in
           if take 1 t = '','' then parse_elements n (acc @ [v]) (drop 1 t)
           else if take 1 t = '']'' then Some (acc @ [v], drop 1 t)
           else None))"
| "parse_members 0 acc s = None"
| "parse_members (Suc n) acc s =
     (let t = skip_ws s in
      if take 1 t \<noteq> [dquote] then None
      else
       (case parse_string [] (drop 1 t) of
          None \<Rightarrow> None
        | Some (k, r) \<Rightarrow>
            if take 1 (skip_ws r) \<noteq> '':'' then None
            else
             (case parse_value n (drop 1 (skip_ws r)) of
                None \<Rightarrow> None
              | Some (v, r') \<Rightarrow>
                  (let acc' = filter (\<lambda>kv. fst kv \<noteq> k) acc @ [(k, v)];
                       t' = skip_ws r'
                   in if take 1 t' = '','' then parse_members n acc' (drop 1 t')
                      else if take 1 t' = ''}'' then Some (acc', drop 1 t')
                      else None))))"

definition node_JSON_parse :: "string \<Rightarrow> js_error + js" where
  "node_JSON_parse s =
     (case parse_value (length s + 2) s of
        None \<Rightarrow> Inl (JsError ''Unexpected token in JSON'')
      | Some (v, r) \<Rightarrow>
          if skip_ws r = [] then Inr v else Inl (JsError ''Unexpected token in JSON''))"

subsection \<open>Dates and cookie.serialize\<close>

definition two_digits :: "nat \<Rightarrow> string" where
  "two_digits n = [digit_char ((n div 10) mod 10), digit_char (n mod 10)]"

definition four_digits :: "nat \<Rightarrow> string" where
  "four_digits n = two_digits (n div 100) @ two_digits (n mod 100)"

text \<open>Year, month and day of a day count from 1970-01-01 (proleptic Gregorian calendar).\<close>

definition civil_from_days :: "int \<Rightarrow> int \<times> int \<times> int" where
  "civil_from_days days =
     (let z = days + 719468;
          era = z div 146097;
          doe = z mod 146097;
          yoe = (doe - doe div 1460 + doe div 36524 - doe div 146096) div 365;
          doy = doe - (365 * yoe + yoe div 4 - yoe div 100);
          mp = (5 * doy + 2) div 153;
          d = doy - (153 * mp + 2) div 5 + 1;
          m = (if mp < 10 then mp + 3 else mp - 9);
          y = yoe + era * 400 + (if m \<le> 2 then 1 else 0)
      in (y, m, d))"

definition node_toUTCString :: "int \<Rightarrow> string" where
  "node_toUTCString ms =
     (let secs = ms div 1000;
          days = secs div 86400;
          r = nat (secs mod 86400);
          ymd = civil_from_days days
      in [''Sun'', ''Mon'', ''Tue'', ''Wed'', ''Thu'', ''Fri'', ''Sat''] ! nat ((days + 4) mod 7)
         @ '', '' @ two_digits (nat (snd (snd ymd))) @ '' ''
         @ [''Jan'', ''Feb'', ''Mar'', ''Apr'', ''May'', ''Jun'',
            ''Jul'', ''Aug'', ''Sep'', ''Oct'', ''Nov'', ''Dec''] ! nat (fst (snd ymd) - 1)
         @ '' '' @ four_digits (nat (fst ymd)) @ '' ''
         @ two_digits (r div 3600) @ '':'' @ two_digits ((r mod 3600) div 60) @ '':''
         @ two_digits (r mod 60) @ '' GMT'')"

definition node_cookie_serialize :: "string \<Rightarrow> string \<Rightarrow> cookie_options \<Rightarrow> string" where
  "node_cookie_serialize name val opt =
     name @ ''='' @ node_encodeURIComponent val
     @ ''; Max-Age='' @ show_int (maxAge opt)
     @ ''; Path='' @ path opt
     @ (case expires opt of None \<Rightarrow> [] | Some t \<Rightarrow> ''; Expires='' @ node_toUTCString t)
     @ (if httpOnly opt then ''; HttpOnly'' else [])
     @ (if secure opt then ''; Secure'' else [])
     @ ''; SameSite='' @ sameSite opt"

subsection \<open>URL serialisation\<close>

text \<open>The application/x-www-form-urlencoded serialiser of \<open>URLSearchParams\<close>.\<close>

definition form_unreserved :: "char \<Rightarrow> bool" where
  "form_unreserved c =
     (c \<in> set ''ABCDEFGHIJKLMNOPQRSTUVWXYZabcdefghijklmnopqrstuvwxyz0123456789*-._'')"

definition form_encode :: "string \<Rightarrow> string" where
  "form_encode s =
     concat (map (\<lambda>c. if form_unreserved c then [c]
                       else if c = CHR '' '' then ''+'' else pct_encode c) s)"

definition node_URL_toString :: "string \<Rightarrow> (string \<times> string) list \<Rightarrow> string" where
  "node_URL_toString base params =
     base @ (if params = [] then []
             else ''?'' @ join ''&'' (map (\<lambda>(k, v). form_encode k @ ''='' @ form_encode v) params))"

subsection \<open>SHA-256 (FIPS 180-4)\<close>

type_synonym w32 = "32 word"

definition rotr :: "nat \<Rightarrow> w32 \<Rightarrow> w32" where
  "rotr n x = drop_bit n x OR push_bit (32 - n) x"

definition Ch :: "w32 \<Rightarrow> w32 \<Rightarrow> w32 \<Rightarrow> w32" where
  "Ch x y z = (x AND y) XOR (NOT x AND z)"

definition Maj :: "w32 \<Rightarrow> w32 \<Rightarrow> w32 \<Rightarrow> w32" where
  "Maj x y z = (x AND y) XOR (x AND z) XOR (y AND z)"

definition bsig0 :: "w32 \<Rightarrow> w32" where
  "bsig0 x = rotr 2 x XOR rotr 13 x XOR rotr 22 x"

definition bsig1 :: "w32 \<Rightarrow> w32" where
  "bsig1 x = rotr 6 x XOR rotr 11 x XOR rotr 25 x"

definition ssig0 :: "w32 \<Rightarrow> w32" where
  "ssig0 x = rotr 7 x XOR rotr 18 x XOR drop_bit 3 x"

definition ssig1 :: "w32 \<Rightarrow> w32" where
  "ssig1 x = rotr 17 x XOR rotr 19 x XOR drop_bit 10 x"

definition sha256_K :: "w32 list" where
  "sha256_K =
     [
      1116352408, 1899447441, 3049323471, 3921009573,
      961987163, 1508970993, 2453635748, 2870763221,
      3624381080, 310598401, 607225278, 1426881987,
      1925078388, 2162078206, 2614888103, 3248222580,
      3835390401, 4022224774, 264347078, 604807628,
      770255983, 1249150122, 1555081692, 1996064986,
      2554220882, 2821834349, 2952996808, 3210313671,
      3336571891, 3584528711, 113926993, 338241895,
      666307205, 773529912, 1294757372, 1396182291,
      1695183700, 1986661051, 2177026350, 2456956037,
      2730485921, 2820302411, 3259730800, 3345764771,
      3516065817, 3600352804, 4094571909, 275423344,
      430227734, 506948616, 659060556, 883997877,
      958139571, 1322822218, 1537002063, 1747873779,
      1955562222, 2024104815, 2227730452, 2361852424,
      2428436474, 2756734187, 3204031479, 3329325298
     ]"

definition sha256_H0 :: "w32 list" where
  "sha256_H0 =
     [1779033703, 3144134277, 1013904242, 2773480762,
      1359893119, 2600822924, 528734635, 1541459225]"

text \<open>The message schedule: the sixteen words of the block, extended to sixty-four.\<close>

fun extend_schedule :: "nat \<Rightarrow> w32 list \<Rightarrow> w32 list" where
  "extend_schedule 0 ws = ws"
| "extend_schedule (Suc k) ws =
     (let t = length ws
      in extend_schedule k
           (ws @ [ssig1 (ws ! (t - 2)) + ws ! (t - 7) + ssig0 (ws ! (t - 15)) + ws ! (t - 16)]))"

fun sha256_round :: "w32 list \<Rightarrow> w32 \<times> w32 \<Rightarrow> w32 list" where
  "sha256_round [a, b, c, d, e, f, g, h] (k, w) =
     (let t1 = h + bsig1 e + Ch e f g + k + w;
          t2 = bsig0 a + Maj a b c
      in [t1 + t2, a, b, c, d + t1, e, f, g])"
| "sha256_round st kw = st"

definition sha256_compress :: "w32 list \<Rightarrow> w32 list \<Rightarrow> w32 list" where
  "sha256_compress hs block =
     map2 (+) hs (foldl sha256_round hs (zip sha256_K (extend_schedule 48 block)))"

text \<open>The low \<open>k\<close> bytes of a number, most significant first.\<close>

fun be_bytes :: "nat \<Rightarrow> nat \<Rightarrow> nat list" where
  "be_bytes 0 n = []"
| "be_bytes (Suc k) n = be_bytes k (n div 256) @ [n mod 256]"

definition sha256_pad :: "nat list \<Rightarrow> nat list" where
  "sha256_pad msg =
     (let len = length msg
      in msg @ [0x80] @ replicate ((64 - (len + 9) mod 64) mod 64) 0 @ be_bytes 8 (8 * len))"

fun be_words :: "nat list \<Rightarrow> w32 list" where
  "be_words (a # b # c # d # rest) =
     (push_bit 24 (of_nat a) + push_bit 16 (of_nat b) + push_bit 8 (of_nat c) + of_nat d)
     # be_words rest"
| "be_words bs = []"

definition word_bytes :: "w32 \<Rightarrow> nat list" where
  "word_bytes w =
     [unat (drop_bit 24 w), unat (drop_bit 16 w AND 0xFF), unat (drop_bit 8 w AND 0xFF),
      unat (w AND 0xFF)]"

fun sha256_blocks :: "nat \<Rightarrow> w32 list \<Rightarrow> w32 list \<Rightarrow> w32 list" where
  "sha256_blocks 0 hs ws = hs"
| "sha256_blocks (Suc n) hs ws = sha256_blocks n (sha256_compress hs (take 16 ws)) (drop 16 ws)"

definition node_sha256 :: "nat list \<Rightarrow> nat list" where
  "node_sha256 msg =
     (let ws = be_words (sha256_pad msg)
      in concat (map word_bytes (sha256_blocks (length ws div 16) sha256_H0 ws)))"

subsection \<open>The instance\<close>

definition node_lib :: lib where
  "node_lib =
     \<lparr>cookie_parse = node_cookie_parse,
      cookie_serialize = node_cookie_serialize,
      decodeURIComponent = node_decodeURIComponent,
      encodeURIComponent = node_encodeURIComponent,
      querystring_parse = node_querystring_parse,
      JSON_parse = node_JSON_parse,
      JSON_stringify = node_JSON_stringify,
      toUTCString = node_toUTCString,
      URL_toString = node_URL_toString,
      sha256 = node_sha256\<rparr>"

section \<open>Concrete deployments and requests\<close>

definition demo_env :: process_env where
  "demo_env =
     \<lparr>XERO_CLIENT_ID = Some ''client'', XERO_CLIENT_SECRET = Some ''secret'',
      URL = Some ''https://app.example''\<rparr>"

definition demo_tokens :: token_data where
  "demo_tokens =
     \<lparr>access_token = Some ''at'', refresh_token = Some ''rt'', expires_in = Some 1800,
      id_token = Some ''h.p.s''\<rparr>"

text \<open>A provider that accepts every token request and reports the given connections.\<close>

definition demo_world :: "connection list \<Rightarrow> world" where
  "demo_world conns =
     \<lparr>env = demo_env,
      now = 1700000000000,
      fetch_token = (\<lambda>req. Inr \<lparr>status = 200, body_text = [], json = Inr demo_tokens\<rparr>),
      fetch_connections = (\<lambda>req. Inr \<lparr>status = 200, body_text = [], json = Inr conns\<rparr>),
      randomBytes = (\<lambda>n. replicate n 7)\<rparr>"

text \<open>A provider whose token endpoint answers with the given status and body text.\<close>

definition failing_world :: "nat \<Rightarrow> string \<Rightarrow> world" where
  "failing_world st txt =
     (demo_world [])\<lparr>fetch_token :=
        (\<lambda>req. Inr \<lparr>status = st, body_text = txt,
                      json = Inl (JsError ''invalid json response body'')\<rparr>)\<rparr>"

definition two_tenants :: "connection list" where
  "two_tenants =
     [\<lparr>tenantId = Some ''A'', tenantName = Some ''Org A''\<rparr>,
      \<lparr>tenantId = Some ''B'', tenantName = Some ''Org B''\<rparr>]"

text \<open>A callback request with the given query parameters and \<open>Cookie\<close> header.\<close>

definition callback_event :: "(string \<times> string) list \<Rightarrow> string option \<Rightarrow> event" where
  "callback_event q c =
     \<lparr>httpMethod = ''GET'', queryStringParameters = map_of q, cookie_header = c,
      event_body = None\<rparr>"

text \<open>A request with the given method and body.\<close>

definition body_event :: "string \<Rightarrow> string option \<Rightarrow> event" where
  "body_event m b =
     \<lparr>httpMethod = m, queryStringParameters = Map.empty, cookie_header = None,
      event_body = b\<rparr>"

text \<open>
  A provider whose token endpoint answers 200 with the body U+1F600, which is not JSON:
  \<open>.json()\<close> rejects, and the message quotes the first code unit of the character, a
  lone surrogate.
\<close>

definition cut_surrogate_message :: string where
  "cut_surrogate_message =
     ''invalid json response body at https://identity.xero.com/connect/token reason: ''
     @ ''Unexpected token '' @ [CHR 0x27, CHR 0xED, CHR 0xA0, CHR 0xBD, CHR 0x27] @ '', ''
     @ [CHR 0x22, CHR 0xF0, CHR 0x9F, CHR 0x98, CHR 0x80, CHR 0x22] @ '' is not valid JSON''"

definition cut_surrogate_world :: world where
  "cut_surrogate_world =
     (demo_world [])\<lparr>fetch_token :=
        (\<lambda>req. Inr \<lparr>status = 200, body_text = [CHR 0xF0, CHR 0x9F, CHR 0x98, CHR 0x80],
                      json = Inl (JsError cut_surrogate_message)\<rparr>)\<rparr>"

text \<open>One tenant whose name is a lone surrogate (\<open>"\ud83d"\<close> in the provider's JSON).\<close>

definition lone_surrogate_tenant :: "connection list" where
  "lone_surrogate_tenant =
     [\<lparr>tenantId = Some ''A'', tenantName = Some [CHR 0xED, CHR 0xA0, CHR 0xBD]\<rparr>]"

text \<open>A provider whose token endpoint has the given outcome.\<close>

definition token_outcome_world :: "js_error + token_data http_response \<Rightarrow> world" where
  "token_outcome_world x = (demo_world [])\<lparr>fetch_token := (\<lambda>req. x)\<rparr>"

text \<open>A provider that accepts every token request and whose tenant fetch has the given outcome.\<close>

definition tenant_outcome_world :: "js_error + connection list http_response \<Rightarrow> world" where
  "tenant_outcome_world x = (demo_world [])\<lparr>fetch_connections := (\<lambda>req. x)\<rparr>"

text \<open>A deployment without its client secret.\<close>

definition no_secret_world :: world where
  "no_secret_world = (demo_world [])\<lparr>env := demo_env\<lparr>XERO_CLIENT_SECRET := None\<rparr>\<rparr>"

text \<open>
  Callbacks that carry code \<open>c0\<close> and state \<open>X\<close>: with the matching cookie, with a
  cookie for state \<open>Y\<close>, with a provider error besides, and with a cookie whose value
  is a lone \<open>%\<close>.
\<close>

definition good_event :: event where
  "good_event =
     callback_event [(''code'', ''c0''), (''state'', ''X'')]
       (Some ''xero_auth=state%3DX%26code_verifier%3Dv0'')"

definition mismatch_event :: event where
  "mismatch_event =
     callback_event [(''code'', ''c0''), (''state'', ''X'')]
       (Some ''xero_auth=state%3DY%26code_verifier%3Dv0'')"

definition denied_event :: event where
  "denied_event =
     callback_event [(''error'', ''access_denied''), (''code'', ''c0''), (''state'', ''X'')]
       (Some ''xero_auth=state%3DY%26code_verifier%3Dv0'')"

definition malformed_cookie_event :: event where
  "malformed_cookie_event =
     callback_event [(''code'', ''c0''), (''state'', ''X'')] (Some ''xero_auth=%'')"

section \<open>The code challenge as the specification words it\<close>

text \<open>
  The SHA-256 digest, base64-encoded, with \<open>+\<close> replaced by \<open>-\<close>, \<open>/\<close> replaced by
  \<open>_\<close>, and the trailing \<open>=\<close> padding stripped.
\<close>

definition spec_base64url_nopad :: "nat list \<Rightarrow> string" where
  "spec_base64url_nopad digest =
     rev (dropWhile (\<lambda>c. c = CHR ''='')
            (rev (map (\<lambda>c. if c = CHR ''+'' then CHR ''-''
                            else if c = CHR ''/'' then CHR ''_'' else c)
                   (base64_bytes digest))))"

section \<open>Properties of the refresh handler\<close>

text \<open>
  Claim C7, as the code has it. A request that is neither POST nor OPTIONS gets 405. A
  POST whose body parses to a value without a truthy \<open>refresh_token\<close> gets 400. A POST
  whose body does not parse as JSON, or parses to \<open>null\<close>, reaches the catch block and
  gets 500. A POST with a refresh token but without both client credentials gets 500.
  None of these issues a request, and a request to the token endpoint is issued only
  by a POST with a truthy refresh token and both credentials configured.
\<close>

theorem refresh_validation:
  "(httpMethod event \<noteq> ''POST'' \<and> httpMethod event \<noteq> ''OPTIONS'' \<longrightarrow>
      statusCode (snd (xero_refresh_handler L W event)) = 405
      \<and> fst (xero_refresh_handler L W event) = [])
   \<and> (httpMethod event = ''POST''
        \<and> JSON_parse L (or_str (event_body event) ''{}'') = Inr requestData
        \<and> get_prop requestData ''refresh_token'' = Inr refreshToken
        \<and> \<not> truthy refreshToken \<longrightarrow>
      statusCode (snd (xero_refresh_handler L W event)) = 400
      \<and> fst (xero_refresh_handler L W event) = [])
   \<and> (httpMethod event = ''POST''
        \<and> (JSON_parse L (or_str (event_body event) ''{}'') = Inl e
            \<or> JSON_parse L (or_str (event_body event) ''{}'') = Inr Null) \<longrightarrow>
      statusCode (snd (xero_refresh_handler L W event)) = 500
      \<and> fst (xero_refresh_handler L W event) = [])
   \<and> (httpMethod event = ''POST''
        \<and> JSON_parse L (or_str (event_body event) ''{}'') = Inr requestData
        \<and> get_prop requestData ''refresh_token'' = Inr refreshToken
        \<and> truthy refreshToken
        \<and> (\<not> truthy_str (XERO_CLIENT_ID (env W)) \<or> \<not> truthy_str (XERO_CLIENT_SECRET (env W))) \<longrightarrow>
      statusCode (snd (xero_refresh_handler L W event)) = 500
      \<and> fst (xero_refresh_handler L W event) = [])
   \<and> (fst (xero_refresh_handler L W event) \<noteq> [] \<longrightarrow>
      httpMethod event = ''POST''
      \<and> (\<exists>v t. JSON_parse L (or_str (event_body event) ''{}'') = Inr v
                 \<and> get_prop v ''refresh_token'' = Inr t \<and> truthy t)
      \<and> truthy_str (XERO_CLIENT_ID (env W)) \<and> truthy_str (XERO_CLIENT_SECRET (env W)))"
  by (auto simp: xero_refresh_handler_def refresh_try_def Let_def
           split: sum.splits if_splits prod.splits)


text \<open>The validation theorem at five concrete requests, one for each of its cases.\<close>

theorem refresh_validation_witness:
  "(statusCode (snd (xero_refresh_handler node_lib (demo_world []) (body_event ''GET'' None))) = 405
    \<and> fst (xero_refresh_handler node_lib (demo_world []) (body_event ''GET'' None)) = [])
   \<and> (statusCode (snd (xero_refresh_handler node_lib (demo_world [])
                         (body_event ''POST'' (Some ''{}'')))) = 400
    \<and> fst (xero_refresh_handler node_lib (demo_world []) (body_event ''POST'' (Some ''{}''))) = [])
   \<and> (statusCode (snd (xero_refresh_handler node_lib (demo_world [])
                         (body_event ''POST'' (Some ''null'')))) = 500
    \<and> fst (xero_refresh_handler node_lib (demo_world []) (body_event ''POST'' (Some ''null''))) = [])
   \<and> (statusCode (snd (xero_refresh_handler node_lib
                         ((demo_world [])\<lparr>env := demo_env\<lparr>XERO_CLIENT_SECRET := None\<rparr>\<rparr>)
                         (body_event ''POST'' (Some ''{\"refresh_token\":\"rt0\"}'')))) = 500
    \<and> fst (xero_refresh_handler node_lib
              ((demo_world [])\<lparr>env := demo_env\<lparr>XERO_CLIENT_SECRET := None\<rparr>\<rparr>)
              (body_event ''POST'' (Some ''{\"refresh_token\":\"rt0\"}''))) = [])
   \<and> truthy_str (XERO_CLIENT_SECRET (env (demo_world [])))"
proof -
  let ?tok = "body_event ''POST'' (Some ''{\"refresh_token\":\"rt0\"}'')"
  let ?nosecret = "(demo_world [])\<lparr>env := demo_env\<lparr>XERO_CLIENT_SECRET := None\<rparr>\<rparr>"
  have m1: "httpMethod (body_event ''GET'' None) \<noteq> ''POST''
            \<and> httpMethod (body_event ''GET'' None) \<noteq> ''OPTIONS''"
    by (simp add: body_event_def)
  have p2: "httpMethod (body_event ''POST'' (Some ''{}'')) = ''POST''
            \<and> JSON_parse node_lib (or_str (event_body (body_event ''POST'' (Some ''{}''))) ''{}'')
                = Inr (Obj [])
            \<and> get_prop (Obj []) ''refresh_token'' = Inr Undefined \<and> \<not> truthy Undefined"
    by code_simp
  have p3: "httpMethod (body_event ''POST'' (Some ''null'')) = ''POST''
            \<and> (JSON_parse node_lib (or_str (event_body (body_event ''POST'' (Some ''null''))) ''{}'')
                  = Inl (JsError [])
               \<or> JSON_parse node_lib (or_str (event_body (body_event ''POST'' (Some ''null''))) ''{}'')
                  = Inr Null)"
    by code_simp
  have p4: "httpMethod ?tok = ''POST''
            \<and> JSON_parse node_lib (or_str (event_body ?tok) ''{}'')
                = Inr (Obj [(''refresh_token'', Str ''rt0'')])
            \<and> get_prop (Obj [(''refresh_token'', Str ''rt0'')]) ''refresh_token'' = Inr (Str ''rt0'')
            \<and> truthy (Str ''rt0'')
            \<and> (\<not> truthy_str (XERO_CLIENT_ID (env ?nosecret))
                \<or> \<not> truthy_str (XERO_CLIENT_SECRET (env ?nosecret)))"
    by code_simp
  have r5: "fst (xero_refresh_handler node_lib (demo_world []) ?tok) \<noteq> []"
    by code_simp
  note c1 = refresh_validation [where event = "body_event ''GET'' None" and L = node_lib
      and W = "demo_world []", THEN conjunct1, THEN mp, OF m1]
  note c2 = refresh_validation [where event = "body_event ''POST'' (Some ''{}'')"
      and L = node_lib and W = "demo_world []",
      THEN conjunct2, THEN conjunct1, THEN mp, OF p2]
  note c3 = refresh_validation [where event = "body_event ''POST'' (Some ''null'')"
      and L = node_lib and W = "demo_world []",
      THEN conjunct2, THEN conjunct2, THEN conjunct1, THEN mp, OF p3]
  note c4 = refresh_validation [where event = ?tok and L = node_lib and W = ?nosecret,
      THEN conjunct2, THEN conjunct2, THEN conjunct2, THEN conjunct1, THEN mp, OF p4]
  note c5 = refresh_validation [where event = ?tok and L = node_lib and W = "demo_world []",
      THEN conjunct2, THEN conjunct2, THEN conjunct2, THEN conjunct2, THEN mp, OF r5,
      THEN conjunct2, THEN conjunct2, THEN conjunct2]
  from c1 c2 c3 c4 c5 show ?thesis
    by (intro conjI) (erule conjunct1 conjunct2 | assumption)+
qed

text \<open>
  Claim C7 as stated fails: the POST body \<open>not json\<close> does not parse as JSON, and the
  handler answers 500, not 400.
\<close>

theorem refresh_unparsable_body_counterexample:
  "httpMethod (body_event ''POST'' (Some ''not json'')) = ''POST''
   \<and> JSON_parse node_lib (or_str (event_body (body_event ''POST'' (Some ''not json''))) ''{}'')
       = Inl (JsError ''Unexpected token in JSON'')
   \<and> statusCode (snd (xero_refresh_handler node_lib (demo_world [])
                        (body_event ''POST'' (Some ''not json''))))
       = 500"
  by code_simp





section \<open>Properties of the callback handler\<close>

lemma well_formed_without_lead: "CHR 0xED \<notin> set s \<Longrightarrow> well_formed s"
  by (induction s rule: well_formed.induct) auto

lemma redirectWithError_well_formed:
  "well_formed m \<Longrightarrow>
     redirectWithError L m =
       Inr \<lparr>statusCode = 302,
            headers = [(''Location'', ''/?auth=error&message='' @ encodeURIComponent L m),
                       (''Cache-Control'', ''no-cache'')],
            body = None\<rparr>"
  by (simp add: redirectWithError_def js_encodeURIComponent_def and_then_def)

lemma redirectWithError_ill_formed:
  "\<not> well_formed m \<Longrightarrow> redirectWithError L m = Inl (JsError ''URI malformed'')"
  by (simp add: redirectWithError_def js_encodeURIComponent_def and_then_def)

lemma redirectWithError_Inr:
  assumes "redirectWithError L m = Inr r"
  shows "well_formed m"
    and "r = \<lparr>statusCode = 302,
              headers = [(''Location'', ''/?auth=error&message='' @ encodeURIComponent L m),
                         (''Cache-Control'', ''no-cache'')],
              body = None\<rparr>"
  using assms
  by (auto simp: redirectWithError_def js_encodeURIComponent_def and_then_def split: if_splits)

lemma well_formed_messages:
  "well_formed ''No authorization code received from Xero''"
  "well_formed ''Invalid authentication request (missing state)''"
  "well_formed ''Authentication session expired or invalid''"
  "well_formed ''Invalid authentication request (state mismatch)''"
  "well_formed ''Server configuration error (missing Xero credentials)''"
  "well_formed ''Connected to Xero, but failed to get user details''"
  "well_formed ''Server error: URI malformed''"
  by (rule well_formed_without_lead, simp)+

lemma caught_well_formed:
  "well_formed m \<Longrightarrow> caught L (redirectWithError L m) = redirectWithError L m"
  by (simp add: caught_def redirectWithError_well_formed)

lemma caught_redirect:
  "caught L (redirectWithError L m) =
     redirectWithError L (if well_formed m then m else ''Server error: URI malformed'')"
  by (simp add: caught_def redirectWithError_well_formed redirectWithError_ill_formed
        well_formed_messages)

lemma caught_Inl: "caught L (Inl e) = redirectWithError L (''Server error: '' @ message e)"
  by (simp add: caught_def)

lemma caught_Inr: "caught L (Inr r) = Inr r"
  by (simp add: caught_def)

lemma fetch_user_info_cases:
  assumes "\<And>m. P (redirectWithError L m)"
    and "\<And>cs. P (callback_success L W td cs)"
    and "\<And>e. P (Inl e)"
  shows "P (snd (fetch_user_info L W reqs td))"
  using assms by (simp add: fetch_user_info_def Let_def split: sum.splits)

lemma exchange_code_cases:
  assumes "\<And>m. P (redirectWithError L m)"
    and "\<And>td cs. P (callback_success L W td cs)"
    and "\<And>e. P (Inl e)"
  shows "P (snd (exchange_code L W code cv cid sec))"
proof -
  have "P (snd (fetch_user_info L W reqs td))" for reqs td
    using assms by (rule fetch_user_info_cases)
  then show ?thesis
    using assms by (simp add: exchange_code_def Let_def split: sum.splits)
qed

lemma callback_try_cases:
  assumes "\<And>m. P (redirectWithError L m)"
    and "\<And>td cs. P (callback_success L W td cs)"
    and "\<And>e. P (Inl e)"
  shows "P (snd (callback_try L W event))"
proof -
  have "P (snd (exchange_code L W code cv cid sec))" for code cv cid sec
    using assms by (rule exchange_code_cases)
  then show ?thesis
    using assms by (simp add: callback_try_def Let_def split: sum.splits)
qed

text \<open>
  What the handler returns is the helper's redirect or the success object; what it
  rejects with is the helper's exception.
\<close>

lemma callback_cases:
  assumes "\<And>m. P (redirectWithError L m)"
    and "\<And>td cs r. callback_success L W td cs = Inr r \<Longrightarrow> P (Inr r)"
  shows "P (snd (xero_callback_handler L W event))"
proof -
  have "P (caught L (snd (callback_try L W event)))"
  proof (rule callback_try_cases)
    show "P (caught L (redirectWithError L m))" for m
      by (simp add: caught_redirect assms(1))
    show "P (caught L (callback_success L W td cs))" for td cs
      by (cases "callback_success L W td cs") (simp_all add: caught_def assms)
    show "P (caught L (Inl e))" for e
      by (simp add: caught_Inl assms(1))
  qed
  then show ?thesis
    by (cases "callback_try L W event") (simp add: xero_callback_handler_def)
qed

lemma callback_success_Inr:
  assumes "callback_success L W td cs = Inr r"
  shows "statusCode r = 302" and "body r = None"
    and "map fst (headers r) = [''Location'', ''Cache-Control'']"
    and "\<exists>rest. map_of (headers r) ''Location'' = Some (''/?auth=success'' @ rest)"
  using assms
  by (auto simp: callback_success_def and_then_def split: sum.splits)

text \<open>
  A response the handler returns is a 302 without a body, to \<open>/?auth=success\<close> or
  to \<open>/?auth=error&message=\<close> followed by the URI-encoded message.
\<close>

lemma callback_returns_redirect:
  assumes "snd (xero_callback_handler L W event) = Inr r"
  shows "statusCode r = 302 \<and> body r = None
    \<and> map fst (headers r) = [''Location'', ''Cache-Control'']
    \<and> ((\<exists>rest. map_of (headers r) ''Location'' = Some (''/?auth=success'' @ rest))
        \<or> (\<exists>msg. map_of (headers r) ''Location''
                    = Some (''/?auth=error&message='' @ encodeURIComponent L msg)))"
proof -
  have "\<forall>r. snd (xero_callback_handler L W event) = Inr r \<longrightarrow>
          statusCode r = 302 \<and> body r = None
          \<and> map fst (headers r) = [''Location'', ''Cache-Control'']
          \<and> ((\<exists>rest. map_of (headers r) ''Location'' = Some (''/?auth=success'' @ rest))
              \<or> (\<exists>msg. map_of (headers r) ''Location''
                          = Some (''/?auth=error&message='' @ encodeURIComponent L msg)))"
  proof (rule callback_cases)
    show "\<forall>r. redirectWithError L m = Inr r \<longrightarrow>
          statusCode r = 302 \<and> body r = None
          \<and> map fst (headers r) = [''Location'', ''Cache-Control'']
          \<and> ((\<exists>rest. map_of (headers r) ''Location'' = Some (''/?auth=success'' @ rest))
              \<or> (\<exists>msg. map_of (headers r) ''Location''
                          = Some (''/?auth=error&message='' @ encodeURIComponent L msg)))" for m
      by (auto dest!: redirectWithError_Inr(2))
    show "\<forall>r'. Inr r = Inr r' \<longrightarrow>
          statusCode r' = 302 \<and> body r' = None
          \<and> map fst (headers r') = [''Location'', ''Cache-Control'']
          \<and> ((\<exists>rest. map_of (headers r') ''Location'' = Some (''/?auth=success'' @ rest))
              \<or> (\<exists>msg. map_of (headers r') ''Location''
                          = Some (''/?auth=error&message='' @ encodeURIComponent L msg)))"
      if "callback_success L W td cs = Inr r" for td cs r
      using callback_success_Inr [OF that] by auto
  qed
  with assms show ?thesis by blast
qed

text \<open>An invocation rejects with no other exception than the helper's URIError.\<close>

lemma callback_rejection:
  assumes "snd (xero_callback_handler L W event) = Inl e"
  shows "e = JsError ''URI malformed''"
proof -
  have "\<forall>e. snd (xero_callback_handler L W event) = Inl e \<longrightarrow> e = JsError ''URI malformed''"
    by (rule callback_cases)
       (auto simp: redirectWithError_def js_encodeURIComponent_def and_then_def split: if_splits)
  with assms show ?thesis by blast
qed

text \<open>
  Claim C5 does not hold of the code. The token endpoint answers 200 with the body
  U+1F600, which is not JSON; \<open>.json()\<close> rejects, and its message quotes the first
  code unit of the character, a lone surrogate. The catch block hands the message to
  \<open>redirectWithError\<close>, whose \<open>encodeURIComponent\<close> throws: after one request the
  invocation rejects with a URIError, and no redirect is returned.
\<close>

theorem callback_rejects_on_cut_surrogate:
  "fetch_token cut_surrogate_world
       (callback_token_request cut_surrogate_world ''c0'' (Str ''v0'') ''client'' ''secret'')
     = Inr \<lparr>status = 200, body_text = [CHR 0xF0, CHR 0x9F, CHR 0x98, CHR 0x80],
            json = Inl (JsError cut_surrogate_message)\<rparr>
   \<and> \<not> well_formed (''Server error: '' @ cut_surrogate_message)
   \<and> xero_callback_handler node_lib cut_surrogate_world good_event
       = ([callback_token_request cut_surrogate_world ''c0'' (Str ''v0'') ''client'' ''secret''],
          Inl (JsError ''URI malformed''))"
  by code_simp

lemma callback_handler_fst:
  "fst (xero_callback_handler L W event) = fst (callback_try L W event)"
  by (cases "callback_try L W event") (simp add: xero_callback_handler_def)

text \<open>A run that issues a request has found the query's state in the cookie.\<close>

lemma callback_requests_imply_state_match:
  assumes "fst (xero_callback_handler L W event) \<noteq> []"
  shows "\<exists>c d. cookie_parse L (or_str (cookie_header event) []) ''xero_auth'' = Some c
            \<and> decodeURIComponent L c = Inr d
            \<and> qs_get (querystring_parse L d) ''state''
                = Str (or_str (queryStringParameters event ''state'') [])
            \<and> truthy_str (queryStringParameters event ''state'')"
  using assms
  by (auto simp: callback_handler_fst callback_try_def Let_def truthy_str_def or_str_def
           split: sum.splits if_splits prod.splits option.splits)

text \<open>
  Claim C1, as the code has it. When the query string carries a code and a state and
  no provider error, and the correlation cookie is present and decodes, a cookie state
  different from the query state ends the run with the state-mismatch redirect, no
  request issued. With or without a provider error in the query, no request is issued
  when the two states differ.
\<close>

theorem state_binding:
  "(\<not> truthy_str (queryStringParameters event ''error'')
    \<and> truthy_str (queryStringParameters event ''code'')
    \<and> queryStringParameters event ''state'' = Some receivedState \<and> receivedState \<noteq> []
    \<and> cookie_parse L (or_str (cookie_header event) []) ''xero_auth'' = Some xeroCookie
    \<and> xeroCookie \<noteq> []
    \<and> decodeURIComponent L xeroCookie = Inr decoded
    \<and> qs_get (querystring_parse L decoded) ''state'' \<noteq> Str receivedState
    \<longrightarrow> xero_callback_handler L W event
          = ([], redirectWithError L ''Invalid authentication request (state mismatch)''))
   \<and> (queryStringParameters event ''state'' = Some receivedState
       \<and> cookie_parse L (or_str (cookie_header event) []) ''xero_auth'' = Some xeroCookie
       \<and> decodeURIComponent L xeroCookie = Inr decoded
       \<and> qs_get (querystring_parse L decoded) ''state'' \<noteq> Str receivedState
       \<longrightarrow> fst (xero_callback_handler L W event) = [])"
proof (intro conjI impI)
  assume a: "\<not> truthy_str (queryStringParameters event ''error'')
    \<and> truthy_str (queryStringParameters event ''code'')
    \<and> queryStringParameters event ''state'' = Some receivedState \<and> receivedState \<noteq> []
    \<and> cookie_parse L (or_str (cookie_header event) []) ''xero_auth'' = Some xeroCookie
    \<and> xeroCookie \<noteq> []
    \<and> decodeURIComponent L xeroCookie = Inr decoded
    \<and> qs_get (querystring_parse L decoded) ''state'' \<noteq> Str receivedState"
  then show "xero_callback_handler L W event
          = ([], redirectWithError L ''Invalid authentication request (state mismatch)'')"
    by (auto simp: xero_callback_handler_def callback_try_def Let_def truthy_str_def or_str_def
          caught_well_formed well_formed_messages)
next
  assume b: "queryStringParameters event ''state'' = Some receivedState
       \<and> cookie_parse L (or_str (cookie_header event) []) ''xero_auth'' = Some xeroCookie
       \<and> decodeURIComponent L xeroCookie = Inr decoded
       \<and> qs_get (querystring_parse L decoded) ''state'' \<noteq> Str receivedState"
  show "fst (xero_callback_handler L W event) = []"
  proof (rule ccontr)
    assume "fst (xero_callback_handler L W event) \<noteq> []"
    from callback_requests_imply_state_match [OF this] b show False
      by (auto simp: or_str_def truthy_str_def split: if_splits)
  qed
qed

text \<open>The state-binding theorem at a callback whose cookie holds another state.\<close>

theorem state_binding_witness:
  "xero_callback_handler node_lib (demo_world two_tenants) mismatch_event
     = ([], redirectWithError node_lib ''Invalid authentication request (state mismatch)'')
   \<and> fst (xero_callback_handler node_lib (demo_world two_tenants) denied_event) = []"
proof -
  have h1: "\<not> truthy_str (queryStringParameters mismatch_event ''error'')
    \<and> truthy_str (queryStringParameters mismatch_event ''code'')
    \<and> queryStringParameters mismatch_event ''state'' = Some ''X'' \<and> ''X'' \<noteq> []
    \<and> cookie_parse node_lib (or_str (cookie_header mismatch_event) []) ''xero_auth''
        = Some ''state=Y&code_verifier=v0''
    \<and> ''state=Y&code_verifier=v0'' \<noteq> []
    \<and> decodeURIComponent node_lib ''state=Y&code_verifier=v0'' = Inr ''state=Y&code_verifier=v0''
    \<and> qs_get (querystring_parse node_lib ''state=Y&code_verifier=v0'') ''state'' \<noteq> Str ''X''"
    by code_simp
  have h2: "queryStringParameters denied_event ''state'' = Some ''X''
    \<and> cookie_parse node_lib (or_str (cookie_header denied_event) []) ''xero_auth''
        = Some ''state=Y&code_verifier=v0''
    \<and> decodeURIComponent node_lib ''state=Y&code_verifier=v0'' = Inr ''state=Y&code_verifier=v0''
    \<and> qs_get (querystring_parse node_lib ''state=Y&code_verifier=v0'') ''state'' \<noteq> Str ''X''"
    by code_simp
  note c1 = state_binding [where event = mismatch_event and L = node_lib
      and W = "demo_world two_tenants", THEN conjunct1, THEN mp, OF h1]
  note c2 = state_binding [where event = denied_event and L = node_lib
      and W = "demo_world two_tenants", THEN conjunct2, THEN mp, OF h2]
  from c1 c2 show ?thesis by (rule conjI)
qed

text \<open>
  Claim C1 as stated fails: a query string may carry \<open>error\<close> besides \<open>code\<close> and
  \<open>state\<close>; the error check comes first and the redirect is the provider's error, not
  the state mismatch.
\<close>

theorem state_mismatch_counterexample:
  "truthy_str (queryStringParameters denied_event ''code'')
   \<and> queryStringParameters denied_event ''state'' = Some ''X''
   \<and> cookie_parse node_lib (or_str (cookie_header denied_event) []) ''xero_auth''
       = Some ''state=Y&code_verifier=v0''
   \<and> decodeURIComponent node_lib ''state=Y&code_verifier=v0'' = Inr ''state=Y&code_verifier=v0''
   \<and> qs_get (querystring_parse node_lib ''state=Y&code_verifier=v0'') ''state'' = Str ''Y''
   \<and> snd (xero_callback_handler node_lib (demo_world two_tenants) denied_event)
       = redirectWithError node_lib ''Authentication error: access_denied''
   \<and> snd (xero_callback_handler node_lib (demo_world two_tenants) denied_event)
       \<noteq> redirectWithError node_lib ''Invalid authentication request (state mismatch)''"
  by code_simp

text \<open>
  Claim C6, as the code has it. The checks run in this order, and the first that fires
  decides the outcome whatever the later ones would say: a provider error; no code; no
  state; no (or an empty) correlation cookie; a cookie value that \<open>decodeURIComponent\<close>
  rejects, which the catch block reports as a server error; a cookie state different
  from the query state; missing client credentials. Each outcome is the helper's
  redirect for the message of the exit; a provider's description that holds a lone
  surrogate makes the helper throw, and the catch block reports that as a server error.
\<close>

theorem callback_validation_order:
  assumes "params = queryStringParameters event"
    and "xeroCookie = cookie_parse L (or_str (cookie_header event) []) ''xero_auth''"
    and "providerError =
           ''Authentication error: ''
           @ (if truthy_str (params ''error_description'')
              then template_str (params ''error_description'')
              else template_str (params ''error''))"
  shows
  "(truthy_str (params ''error'') \<longrightarrow>
      xero_callback_handler L W event =
        ([], redirectWithError L
               (if well_formed providerError then providerError
                else ''Server error: URI malformed'')))
   \<and> (\<not> truthy_str (params ''error'') \<and> \<not> truthy_str (params ''code'') \<longrightarrow>
      xero_callback_handler L W event =
        ([], redirectWithError L ''No authorization code received from Xero''))
   \<and> (\<not> truthy_str (params ''error'') \<and> truthy_str (params ''code'')
       \<and> \<not> truthy_str (params ''state'') \<longrightarrow>
      xero_callback_handler L W event =
        ([], redirectWithError L ''Invalid authentication request (missing state)''))
   \<and> (\<not> truthy_str (params ''error'') \<and> truthy_str (params ''code'')
       \<and> truthy_str (params ''state'') \<and> \<not> truthy_str xeroCookie \<longrightarrow>
      xero_callback_handler L W event =
        ([], redirectWithError L ''Authentication session expired or invalid''))
   \<and> (\<not> truthy_str (params ''error'') \<and> truthy_str (params ''code'')
       \<and> truthy_str (params ''state'') \<and> truthy_str xeroCookie
       \<and> decodeURIComponent L (or_str xeroCookie []) = Inl e \<longrightarrow>
      xero_callback_handler L W event =
        ([], redirectWithError L (''Server error: '' @ message e)))
   \<and> (\<not> truthy_str (params ''error'') \<and> truthy_str (params ''code'')
       \<and> truthy_str (params ''state'') \<and> truthy_str xeroCookie
       \<and> decodeURIComponent L (or_str xeroCookie []) = Inr decoded
       \<and> qs_get (querystring_parse L decoded) ''state'' \<noteq> Str (or_str (params ''state'') [])
       \<longrightarrow>
      xero_callback_handler L W event =
        ([], redirectWithError L ''Invalid authentication request (state mismatch)''))
   \<and> (\<not> truthy_str (params ''error'') \<and> truthy_str (params ''code'')
       \<and> truthy_str (params ''state'') \<and> truthy_str xeroCookie
       \<and> decodeURIComponent L (or_str xeroCookie []) = Inr decoded
       \<and> qs_get (querystring_parse L decoded) ''state'' = Str (or_str (params ''state'') [])
       \<and> (\<not> truthy_str (XERO_CLIENT_ID (env W)) \<or> \<not> truthy_str (XERO_CLIENT_SECRET (env W)))
       \<longrightarrow>
      xero_callback_handler L W event =
        ([], redirectWithError L ''Server configuration error (missing Xero credentials)''))"
  unfolding assms
  by (auto simp: xero_callback_handler_def callback_try_def Let_def caught_Inl caught_redirect
        caught_well_formed well_formed_messages)

text \<open>One callback for each of the seven exits.\<close>

theorem callback_validation_order_witness:
  "xero_callback_handler node_lib (demo_world []) denied_event
     = ([], redirectWithError node_lib ''Authentication error: access_denied'')
   \<and> xero_callback_handler node_lib (demo_world []) (callback_event [(''state'', ''X'')] None)
     = ([], redirectWithError node_lib ''No authorization code received from Xero'')
   \<and> xero_callback_handler node_lib (demo_world []) (callback_event [(''code'', ''c0'')] None)
     = ([], redirectWithError node_lib ''Invalid authentication request (missing state)'')
   \<and> xero_callback_handler node_lib (demo_world [])
       (callback_event [(''code'', ''c0''), (''state'', ''X'')] None)
     = ([], redirectWithError node_lib ''Authentication session expired or invalid'')
   \<and> xero_callback_handler node_lib (demo_world []) malformed_cookie_event
     = ([], redirectWithError node_lib (''Server error: '' @ message (JsError ''URI malformed'')))
   \<and> xero_callback_handler node_lib (demo_world []) mismatch_event
     = ([], redirectWithError node_lib ''Invalid authentication request (state mismatch)'')
   \<and> xero_callback_handler node_lib no_secret_world good_event
     = ([], redirectWithError node_lib ''Server configuration error (missing Xero credentials)'')"
proof -
  let ?p = queryStringParameters
  let ?c = "\<lambda>ev. cookie_parse node_lib (or_str (cookie_header ev) []) ''xero_auth''"
  have h1: "truthy_str (?p denied_event ''error'')"
    by code_simp
  have h2: "\<not> truthy_str (?p (callback_event [(''state'', ''X'')] None) ''error'')
            \<and> \<not> truthy_str (?p (callback_event [(''state'', ''X'')] None) ''code'')"
    by code_simp
  have h3: "\<not> truthy_str (?p (callback_event [(''code'', ''c0'')] None) ''error'')
            \<and> truthy_str (?p (callback_event [(''code'', ''c0'')] None) ''code'')
            \<and> \<not> truthy_str (?p (callback_event [(''code'', ''c0'')] None) ''state'')"
    by code_simp
  have h4: "\<not> truthy_str (?p (callback_event [(''code'', ''c0''), (''state'', ''X'')] None) ''error'')
            \<and> truthy_str (?p (callback_event [(''code'', ''c0''), (''state'', ''X'')] None) ''code'')
            \<and> truthy_str (?p (callback_event [(''code'', ''c0''), (''state'', ''X'')] None) ''state'')
            \<and> \<not> truthy_str (?c (callback_event [(''code'', ''c0''), (''state'', ''X'')] None))"
    by code_simp
  have h5: "\<not> truthy_str (?p malformed_cookie_event ''error'')
            \<and> truthy_str (?p malformed_cookie_event ''code'')
            \<and> truthy_str (?p malformed_cookie_event ''state'')
            \<and> truthy_str (?c malformed_cookie_event)
            \<and> decodeURIComponent node_lib (or_str (?c malformed_cookie_event) [])
                = Inl (JsError ''URI malformed'')"
    by code_simp
  have h6: "\<not> truthy_str (?p mismatch_event ''error'')
            \<and> truthy_str (?p mismatch_event ''code'')
            \<and> truthy_str (?p mismatch_event ''state'')
            \<and> truthy_str (?c mismatch_event)
            \<and> decodeURIComponent node_lib (or_str (?c mismatch_event) [])
                = Inr ''state=Y&code_verifier=v0''
            \<and> qs_get (querystring_parse node_lib ''state=Y&code_verifier=v0'') ''state''
                \<noteq> Str (or_str (?p mismatch_event ''state'') [])"
    by code_simp
  have h7: "\<not> truthy_str (?p good_event ''error'')
            \<and> truthy_str (?p good_event ''code'')
            \<and> truthy_str (?p good_event ''state'')
            \<and> truthy_str (?c good_event)
            \<and> decodeURIComponent node_lib (or_str (?c good_event) [])
                = Inr ''state=X&code_verifier=v0''
            \<and> qs_get (querystring_parse node_lib ''state=X&code_verifier=v0'') ''state''
                = Str (or_str (?p good_event ''state'') [])
            \<and> (\<not> truthy_str (XERO_CLIENT_ID (env no_secret_world))
                \<or> \<not> truthy_str (XERO_CLIENT_SECRET (env no_secret_world)))"
    by code_simp
  have t1: "template_str (?p denied_event ''error'') = ''access_denied''
            \<and> \<not> truthy_str (?p denied_event ''error_description'')
            \<and> well_formed ''Authentication error: access_denied''"
    by code_simp
  note c1 = callback_validation_order [where event = denied_event
      and L = node_lib and W = "demo_world []", OF refl refl refl,
      THEN conjunct1, THEN mp, OF h1]
  note c2 = callback_validation_order [where event = "callback_event [(''state'', ''X'')] None"
      and L = node_lib and W = "demo_world []", OF refl refl refl,
      THEN conjunct2, THEN conjunct1, THEN mp, OF h2]
  note c3 = callback_validation_order [where event = "callback_event [(''code'', ''c0'')] None"
      and L = node_lib and W = "demo_world []", OF refl refl refl,
      THEN conjunct2, THEN conjunct2, THEN conjunct1, THEN mp, OF h3]
  note c4 = callback_validation_order [where event = "callback_event [(''code'', ''c0''), (''state'', ''X'')] None"
      and L = node_lib and W = "demo_world []", OF refl refl refl,
      THEN conjunct2, THEN conjunct2, THEN conjunct2, THEN conjunct1, THEN mp, OF h4]
  note c5 = callback_validation_order [where event = malformed_cookie_event
      and L = node_lib and W = "demo_world []", OF refl refl refl,
      THEN conjunct2, THEN conjunct2, THEN conjunct2, THEN conjunct2, THEN conjunct1,
      THEN mp, OF h5]
  note c6 = callback_validation_order [where event = mismatch_event
      and L = node_lib and W = "demo_world []", OF refl refl refl,
      THEN conjunct2, THEN conjunct2, THEN conjunct2, THEN conjunct2, THEN conjunct2,
      THEN conjunct1, THEN mp, OF h6]
  note c7 = callback_validation_order [where event = good_event
      and L = node_lib and W = no_secret_world, OF refl refl refl,
      THEN conjunct2, THEN conjunct2, THEN conjunct2, THEN conjunct2, THEN conjunct2,
      THEN conjunct2, THEN mp, OF h7]
  from c1 t1 have c1': "xero_callback_handler node_lib (demo_world []) denied_event
     = ([], redirectWithError node_lib ''Authentication error: access_denied'')"
    by simp
  from c1' c2 c3 c4 c5 c6 c7 show ?thesis
    by (intro conjI)
qed

text \<open>
  Claim C6 as stated fails: a correlation cookie that is present but does not decode
  does not end in the session-expired redirect; \<open>decodeURIComponent\<close> throws and the
  catch block redirects with a server error.
\<close>

theorem unparsable_cookie_counterexample:
  "\<not> truthy_str (queryStringParameters malformed_cookie_event ''error'')
   \<and> truthy_str (queryStringParameters malformed_cookie_event ''code'')
   \<and> truthy_str (queryStringParameters malformed_cookie_event ''state'')
   \<and> cookie_header malformed_cookie_event = Some ''xero_auth=%''
   \<and> cookie_parse node_lib ''xero_auth=%'' ''xero_auth'' = Some ''%''
   \<and> decodeURIComponent node_lib ''%'' = Inl (JsError ''URI malformed'')
   \<and> snd (xero_callback_handler node_lib (demo_world []) malformed_cookie_event)
       = redirectWithError node_lib ''Server error: URI malformed''
   \<and> snd (xero_callback_handler node_lib (demo_world []) malformed_cookie_event)
       \<noteq> redirectWithError node_lib ''Authentication session expired or invalid''"
  by code_simp

lemma well_formed_or_str_Unknown:
  "well_formed (or_str x ''Unknown'') = well_formed (or_str x [])"
  by (cases x) (simp_all add: or_str_def truthy_str_def)

lemma session_cookies_eval:
  "session_cookies L tokenData connections =
     (if well_formed (or_str (active_tenantId connections) [])
         \<and> well_formed (or_str (active_tenantName connections) [])
         \<and> well_formed (id_token_payload (or_str (id_token tokenData) []))
      then Inr [cookie_serialize L ''xero_authenticated'' ''true'' cookieOptions,
                cookie_serialize L ''xero_tenant_id''
                  (or_str (active_tenantId connections) []) cookieOptions,
                cookie_serialize L ''xero_tenant_name''
                  (or_str (active_tenantName connections) []) cookieOptions,
                if truthy_str (id_token tokenData)
                then cookie_serialize L ''xero_user_id''
                       (id_token_payload (or_str (id_token tokenData) [])) cookieOptions
                else [],
                cookie_serialize L ''xero_auth'' [] (cookieOptions\<lparr>expires := Some 0\<rparr>)]
      else Inl (JsError ''URI malformed''))"
proof -
  have p: "\<not> truthy_str (id_token tokenData) \<Longrightarrow>
           id_token_payload (or_str (id_token tokenData) []) = []"
    by (cases "id_token tokenData") (simp_all add: or_str_def truthy_str_def id_token_payload_def)
  show ?thesis
    using p
    by (simp add: session_cookies_def and_then_def js_cookie_serialize_def)
qed

lemma callback_success_eval:
  "callback_success L W tokenData connections =
     (if well_formed (or_str (active_tenantId connections) [])
         \<and> well_formed (or_str (active_tenantName connections) [])
         \<and> well_formed (id_token_payload (or_str (id_token tokenData) []))
         \<and> well_formed (JSON_stringify L (orgData connections))
         \<and> well_formed (JSON_stringify L (token_bundle W tokenData))
      then Inr \<lparr>statusCode = 302,
                headers =
                  [(''Location'',
                    ''/?auth=success&tenantName=''
                    @ encodeURIComponent L (or_str (active_tenantName connections) ''Unknown'')
                    @ ''&tenantId='' @ encodeURIComponent L (or_str (active_tenantId connections) [])
                    @ ''&multipleOrgs=''
                    @ (if length connections > 1 then ''true'' else ''false'')
                    @ ''&tenants='' @ encodeURIComponent L (JSON_stringify L (orgData connections))
                    @ ''&tokens=''
                    @ encodeURIComponent L (JSON_stringify L (token_bundle W tokenData))),
                   (''Cache-Control'', ''no-cache'')],
                body = None\<rparr>
      else Inl (JsError ''URI malformed''))"
  by (simp add: callback_success_def session_cookies_eval and_then_def js_encodeURIComponent_def
        well_formed_or_str_Unknown)

text \<open>The run in which every check passes and both provider calls succeed.\<close>

lemma callback_success_path:
  assumes "\<not> truthy_str (queryStringParameters event ''error'')"
    and "queryStringParameters event ''code'' = Some code" and "code \<noteq> []"
    and "queryStringParameters event ''state'' = Some receivedState" and "receivedState \<noteq> []"
    and "cookie_parse L (or_str (cookie_header event) []) ''xero_auth'' = Some xeroCookie"
    and "xeroCookie \<noteq> []"
    and "decodeURIComponent L xeroCookie = Inr decoded"
    and "qs_get (querystring_parse L decoded) ''state'' = Str receivedState"
    and "XERO_CLIENT_ID (env W) = Some clientId" and "clientId \<noteq> []"
    and "XERO_CLIENT_SECRET (env W) = Some clientSecret" and "clientSecret \<noteq> []"
    and "fetch_token W (callback_token_request W code
           (qs_get (querystring_parse L decoded) ''code_verifier'') clientId clientSecret)
         = Inr tokenResponse"
    and "ok tokenResponse" and "json tokenResponse = Inr tokenData"
    and "fetch_connections W (connections_request tokenData) = Inr userInfoResponse"
    and "ok userInfoResponse" and "json userInfoResponse = Inr connections"
  shows "xero_callback_handler L W event =
           ([callback_token_request W code
               (qs_get (querystring_parse L decoded) ''code_verifier'') clientId clientSecret,
             connections_request tokenData],
            caught L (callback_success L W tokenData connections))"
  using assms
  by (simp add: xero_callback_handler_def callback_try_def exchange_code_def
        fetch_user_info_def Let_def truthy_str_def or_str_def)

text \<open>
  Claim C9, as the code has it. On a run whose checks pass and whose two provider calls
  succeed the handler returns a 302. When the values placed in the cookies and in the
  redirect can be URI-encoded, the redirect goes to \<open>/?auth=success\<close>: for a non-empty
  connections list the active tenant id and name are those of the first element, and
  the tenant list is passed on in the provider's order; for the empty list the active
  tenant id is \<open>null\<close> (an empty \<open>tenantId\<close> parameter) and the active tenant name is
  the placeholder \<open>Unknown Organization\<close>. When one of the values holds a lone
  surrogate the encoding throws and the catch block redirects with a server error.
\<close>

theorem tenant_selection:
  assumes "\<not> truthy_str (queryStringParameters event ''error'')"
    and "queryStringParameters event ''code'' = Some code" and "code \<noteq> []"
    and "queryStringParameters event ''state'' = Some receivedState" and "receivedState \<noteq> []"
    and "cookie_parse L (or_str (cookie_header event) []) ''xero_auth'' = Some xeroCookie"
    and "xeroCookie \<noteq> []"
    and "decodeURIComponent L xeroCookie = Inr decoded"
    and "qs_get (querystring_parse L decoded) ''state'' = Str receivedState"
    and "XERO_CLIENT_ID (env W) = Some clientId" and "clientId \<noteq> []"
    and "XERO_CLIENT_SECRET (env W) = Some clientSecret" and "clientSecret \<noteq> []"
    and "fetch_token W (callback_token_request W code
           (qs_get (querystring_parse L decoded) ''code_verifier'') clientId clientSecret)
         = Inr tokenResponse"
    and "ok tokenResponse" and "json tokenResponse = Inr tokenData"
    and "fetch_connections W (connections_request tokenData) = Inr userInfoResponse"
    and "ok userInfoResponse" and "json userInfoResponse = Inr connections"
    and "encodable =
           (well_formed (or_str (active_tenantId connections) [])
            \<and> well_formed (or_str (active_tenantName connections) [])
            \<and> well_formed (id_token_payload (or_str (id_token tokenData) []))
            \<and> well_formed (JSON_stringify L (orgData connections))
            \<and> well_formed (JSON_stringify L (token_bundle W tokenData)))"
  shows "(\<exists>r. snd (xero_callback_handler L W event) = Inr r \<and> statusCode r = 302)
    \<and> (\<forall>c cs. connections = c # cs \<longrightarrow>
          active_tenantId connections = tenantId c
          \<and> active_tenantName connections = tenantName c
          \<and> (encodable \<longrightarrow>
             snd (xero_callback_handler L W event) =
               Inr \<lparr>statusCode = 302,
                    headers =
                      [(''Location'',
                        ''/?auth=success&tenantName=''
                        @ encodeURIComponent L (or_str (tenantName c) ''Unknown'')
                        @ ''&tenantId='' @ encodeURIComponent L (or_str (tenantId c) [])
                        @ ''&multipleOrgs='' @ (if cs \<noteq> [] then ''true'' else ''false'')
                        @ ''&tenants=''
                        @ encodeURIComponent L (JSON_stringify L (orgData (c # cs)))
                        @ ''&tokens=''
                        @ encodeURIComponent L (JSON_stringify L (token_bundle W tokenData))),
                       (''Cache-Control'', ''no-cache'')],
                    body = None\<rparr>))
    \<and> (connections = [] \<longrightarrow>
          active_tenantId connections = None
          \<and> active_tenantName connections = Some ''Unknown Organization''
          \<and> (encodable \<longrightarrow>
             snd (xero_callback_handler L W event) =
               Inr \<lparr>statusCode = 302,
                    headers =
                      [(''Location'',
                        ''/?auth=success&tenantName=''
                        @ encodeURIComponent L ''Unknown Organization''
                        @ ''&tenantId='' @ encodeURIComponent L []
                        @ ''&multipleOrgs=false''
                        @ ''&tenants='' @ encodeURIComponent L (JSON_stringify L (Arr []))
                        @ ''&tokens=''
                        @ encodeURIComponent L (JSON_stringify L (token_bundle W tokenData))),
                       (''Cache-Control'', ''no-cache'')],
                    body = None\<rparr>))
    \<and> (\<not> encodable \<longrightarrow>
          snd (xero_callback_handler L W event)
            = redirectWithError L ''Server error: URI malformed'')
    \<and> orgData connections
        = Arr (map (\<lambda>conn. Obj [(''tenantId'', opt_js (tenantId conn)),
                                 (''tenantName'',
                                  Str (or_str (tenantName conn) ''Unnamed Organization''))])
                connections)"
proof -
  note path = callback_success_path [OF assms(1-19)]
  have cs: "callback_success L W tokenData connections =
     (if encodable
      then Inr \<lparr>statusCode = 302,
                headers =
                  [(''Location'',
                    ''/?auth=success&tenantName=''
                    @ encodeURIComponent L (or_str (active_tenantName connections) ''Unknown'')
                    @ ''&tenantId='' @ encodeURIComponent L (or_str (active_tenantId connections) [])
                    @ ''&multipleOrgs=''
                    @ (if length connections > 1 then ''true'' else ''false'')
                    @ ''&tenants='' @ encodeURIComponent L (JSON_stringify L (orgData connections))
                    @ ''&tokens=''
                    @ encodeURIComponent L (JSON_stringify L (token_bundle W tokenData))),
                   (''Cache-Control'', ''no-cache'')],
                body = None\<rparr>
      else Inl (JsError ''URI malformed''))"
    unfolding assms(20) by (rule callback_success_eval)
  have enc: "encodable \<Longrightarrow>
      snd (xero_callback_handler L W event) =
        Inr \<lparr>statusCode = 302,
             headers =
               [(''Location'',
                 ''/?auth=success&tenantName=''
                 @ encodeURIComponent L (or_str (active_tenantName connections) ''Unknown'')
                 @ ''&tenantId='' @ encodeURIComponent L (or_str (active_tenantId connections) [])
                 @ ''&multipleOrgs=''
                 @ (if length connections > 1 then ''true'' else ''false'')
                 @ ''&tenants='' @ encodeURIComponent L (JSON_stringify L (orgData connections))
                 @ ''&tokens=''
                 @ encodeURIComponent L (JSON_stringify L (token_bundle W tokenData))),
                (''Cache-Control'', ''no-cache'')],
             body = None\<rparr>"
    by (simp add: path cs caught_Inr)
  have nenc: "\<not> encodable \<Longrightarrow>
      snd (xero_callback_handler L W event)
        = redirectWithError L ''Server error: URI malformed''"
    by (simp add: path cs caught_Inl)
  have st: "\<exists>r. snd (xero_callback_handler L W event) = Inr r \<and> statusCode r = 302"
  proof (cases encodable)
    case True
    from enc [OF this] show ?thesis by simp
  next
    case False
    from nenc [OF this] show ?thesis
      by (simp add: redirectWithError_well_formed well_formed_messages)
  qed
  have ne: "\<forall>c cs. connections = c # cs \<longrightarrow>
          active_tenantId connections = tenantId c
          \<and> active_tenantName connections = tenantName c
          \<and> (encodable \<longrightarrow>
             snd (xero_callback_handler L W event) =
               Inr \<lparr>statusCode = 302,
                    headers =
                      [(''Location'',
                        ''/?auth=success&tenantName=''
                        @ encodeURIComponent L (or_str (tenantName c) ''Unknown'')
                        @ ''&tenantId='' @ encodeURIComponent L (or_str (tenantId c) [])
                        @ ''&multipleOrgs='' @ (if cs \<noteq> [] then ''true'' else ''false'')
                        @ ''&tenants=''
                        @ encodeURIComponent L (JSON_stringify L (orgData (c # cs)))
                        @ ''&tokens=''
                        @ encodeURIComponent L (JSON_stringify L (token_bundle W tokenData))),
                       (''Cache-Control'', ''no-cache'')],
                    body = None\<rparr>)"
    using enc by (auto simp: active_tenantId_def active_tenantName_def)
  have em: "connections = [] \<longrightarrow>
          active_tenantId connections = None
          \<and> active_tenantName connections = Some ''Unknown Organization''
          \<and> (encodable \<longrightarrow>
             snd (xero_callback_handler L W event) =
               Inr \<lparr>statusCode = 302,
                    headers =
                      [(''Location'',
                        ''/?auth=success&tenantName=''
                        @ encodeURIComponent L ''Unknown Organization''
                        @ ''&tenantId='' @ encodeURIComponent L []
                        @ ''&multipleOrgs=false''
                        @ ''&tenants='' @ encodeURIComponent L (JSON_stringify L (Arr []))
                        @ ''&tokens=''
                        @ encodeURIComponent L (JSON_stringify L (token_bundle W tokenData))),
                       (''Cache-Control'', ''no-cache'')],
                    body = None\<rparr>)"
    using enc
    by (auto simp: active_tenantId_def active_tenantName_def orgData_def or_str_def
          truthy_str_def)
  have og: "orgData connections
        = Arr (map (\<lambda>conn. Obj [(''tenantId'', opt_js (tenantId conn)),
                                 (''tenantName'',
                                  Str (or_str (tenantName conn) ''Unnamed Organization''))])
                connections)"
    by (simp add: orgData_def)
  from nenc have ill: "\<not> encodable \<longrightarrow>
      snd (xero_callback_handler L W event)
        = redirectWithError L ''Server error: URI malformed''"
    by (rule impI)
  from st ne em ill og show ?thesis
    by (intro conjI)
qed

text \<open>
  Two tenants \<open>A\<close> and \<open>B\<close> select \<open>A\<close>; no tenant selects the placeholder; a tenant
  name that is a lone surrogate ends in the server-error redirect.
\<close>

theorem tenant_selection_witness:
  "(active_tenantId two_tenants = Some ''A'' \<and> active_tenantName two_tenants = Some ''Org A'')
   \<and> (\<exists>r. snd (xero_callback_handler node_lib (demo_world two_tenants) good_event) = Inr r
           \<and> statusCode r = 302)
   \<and> snd (xero_callback_handler node_lib (demo_world two_tenants) good_event)
       = Inr \<lparr>statusCode = 302,
            headers = [(''Location'', ''/?auth=success&tenantName=Org%20A&tenantId=A&multipleOrgs=true&tenants=%5B%7B%22tenantId%22%3A%22A%22%2C%22tenantName%22%3A%22Org%20A%22%7D%2C%7B%22tenantId%22%3A%22B%22%2C%22tenantName%22%3A%22Org%20B%22%7D%5D&tokens=%7B%22access_token%22%3A%22at%22%2C%22refresh_token%22%3A%22rt%22%2C%22expires_at%22%3A1700001800000%7D''),
                       (''Cache-Control'', ''no-cache'')],
            body = None\<rparr>
   \<and> (active_tenantId [] = None \<and> active_tenantName [] = Some ''Unknown Organization'')
   \<and> (\<exists>r. snd (xero_callback_handler node_lib (demo_world []) good_event) = Inr r
           \<and> statusCode r = 302)
   \<and> snd (xero_callback_handler node_lib (demo_world []) good_event)
       = Inr \<lparr>statusCode = 302,
            headers = [(''Location'', ''/?auth=success&tenantName=Unknown%20Organization&tenantId=&multipleOrgs=false&tenants=%5B%5D&tokens=%7B%22access_token%22%3A%22at%22%2C%22refresh_token%22%3A%22rt%22%2C%22expires_at%22%3A1700001800000%7D''),
                       (''Cache-Control'', ''no-cache'')],
            body = None\<rparr>
   \<and> snd (xero_callback_handler node_lib (demo_world lone_surrogate_tenant) good_event)
       = redirectWithError node_lib ''Server error: URI malformed''"
proof -
  let ?L = node_lib
  let ?a = "\<lparr>tenantId = Some ''A'', tenantName = Some ''Org A''\<rparr>"
  let ?b = "\<lparr>tenantId = Some ''B'', tenantName = Some ''Org B''\<rparr>"
  let ?resp = "\<lambda>conns. \<lparr>status = 200, body_text = [],
                         json = (Inr conns :: js_error + connection list)\<rparr>"
  let ?tok = "\<lparr>status = 200, body_text = [], json = (Inr demo_tokens :: js_error + token_data)\<rparr>"
  let ?enc = "\<lambda>conns. well_formed (or_str (active_tenantId conns) [])
            \<and> well_formed (or_str (active_tenantName conns) [])
            \<and> well_formed (id_token_payload (or_str (id_token demo_tokens) []))
            \<and> well_formed (JSON_stringify ?L (orgData conns))
            \<and> well_formed (JSON_stringify ?L (token_bundle (demo_world conns) demo_tokens))"
  have h1: "\<not> truthy_str (queryStringParameters good_event ''error'')"
    by code_simp
  have h2: "queryStringParameters good_event ''code'' = Some ''c0''" "''c0'' \<noteq> []"
    by code_simp+
  have h3: "queryStringParameters good_event ''state'' = Some ''X''" "''X'' \<noteq> []"
    by code_simp+
  have h4: "cookie_parse ?L (or_str (cookie_header good_event) []) ''xero_auth''
              = Some ''state=X&code_verifier=v0''" "''state=X&code_verifier=v0'' \<noteq> []"
    by code_simp+
  have h5: "decodeURIComponent ?L ''state=X&code_verifier=v0'' = Inr ''state=X&code_verifier=v0''"
    by code_simp
  have h6: "qs_get (querystring_parse ?L ''state=X&code_verifier=v0'') ''state'' = Str ''X''"
    by code_simp
  { fix conns :: "connection list"
    have e1: "XERO_CLIENT_ID (env (demo_world conns)) = Some ''client''" "''client'' \<noteq> []"
      and e2: "XERO_CLIENT_SECRET (env (demo_world conns)) = Some ''secret''" "''secret'' \<noteq> []"
      by (simp_all add: demo_world_def demo_env_def)
    have f1: "fetch_token (demo_world conns) req = Inr ?tok" "ok ?tok"
        "json ?tok = Inr demo_tokens" for req
      by (simp_all add: demo_world_def ok_def)
    have f2: "fetch_connections (demo_world conns) req = Inr (?resp conns)" "ok (?resp conns)"
        "json (?resp conns) = Inr conns" for req
      by (simp_all add: demo_world_def ok_def)
    note tenant_selection [OF h1 h2 h3 h4 h5 h6 e1 e2 f1 f2 refl] }
  note T = this
  note t2 = T [of two_tenants]
  note t0 = T [of "[]"]
  note tl = T [of lone_surrogate_tenant]
  have enc2: "?enc two_tenants"
    by code_simp
  have enc0: "?enc []"
    by code_simp
  have encl: "\<not> ?enc lone_surrogate_tenant"
    by code_simp
  have a: "active_tenantId two_tenants = Some ''A'' \<and> active_tenantName two_tenants = Some ''Org A''"
    using t2 [THEN conjunct2, THEN conjunct1] by (simp add: two_tenants_def)
  have b: "active_tenantId [] = None \<and> active_tenantName [] = Some ''Unknown Organization''"
    using t0 [THEN conjunct2, THEN conjunct2, THEN conjunct1] by simp
  note x2 = t2 [THEN conjunct2, THEN conjunct1, THEN spec, THEN spec, THEN mp,
      OF two_tenants_def, THEN conjunct2, THEN conjunct2, THEN mp, OF enc2]
  note x0 = t0 [THEN conjunct2, THEN conjunct2, THEN conjunct1, THEN mp, OF refl,
      THEN conjunct2, THEN conjunct2, THEN mp, OF enc0]
  note xl = tl [THEN conjunct2, THEN conjunct2, THEN conjunct2, THEN conjunct1, THEN mp, OF encl]
  have v2: "''/?auth=success&tenantName=''
            @ encodeURIComponent ?L (or_str (tenantName ?a) ''Unknown'')
            @ ''&tenantId='' @ encodeURIComponent ?L (or_str (tenantId ?a) [])
            @ ''&multipleOrgs='' @ (if [?b] \<noteq> [] then ''true'' else ''false'')
            @ ''&tenants='' @ encodeURIComponent ?L (JSON_stringify ?L (orgData (?a # [?b])))
            @ ''&tokens=''
            @ encodeURIComponent ?L
                (JSON_stringify ?L (token_bundle (demo_world two_tenants) demo_tokens))
          = ''/?auth=success&tenantName=Org%20A&tenantId=A&multipleOrgs=true&tenants=%5B%7B%22tenantId%22%3A%22A%22%2C%22tenantName%22%3A%22Org%20A%22%7D%2C%7B%22tenantId%22%3A%22B%22%2C%22tenantName%22%3A%22Org%20B%22%7D%5D&tokens=%7B%22access_token%22%3A%22at%22%2C%22refresh_token%22%3A%22rt%22%2C%22expires_at%22%3A1700001800000%7D''"
    by code_simp
  have v0: "''/?auth=success&tenantName=''
            @ encodeURIComponent ?L ''Unknown Organization''
            @ ''&tenantId='' @ encodeURIComponent ?L []
            @ ''&multipleOrgs=false''
            @ ''&tenants='' @ encodeURIComponent ?L (JSON_stringify ?L (Arr []))
            @ ''&tokens=''
            @ encodeURIComponent ?L (JSON_stringify ?L (token_bundle (demo_world []) demo_tokens))
          = ''/?auth=success&tenantName=Unknown%20Organization&tenantId=&multipleOrgs=false&tenants=%5B%5D&tokens=%7B%22access_token%22%3A%22at%22%2C%22refresh_token%22%3A%22rt%22%2C%22expires_at%22%3A1700001800000%7D''"
    by code_simp
  note y2 = x2 [unfolded v2]
  note y0 = x0 [unfolded v0]
  note s2 = t2 [THEN conjunct1]
  note s0 = t0 [THEN conjunct1]
  show ?thesis
    by (rule conjI [OF a conjI [OF s2 conjI [OF y2 conjI [OF b conjI [OF s0 conjI [OF y0 xl]]]]]])
qed

text \<open>
  Claim C9 as stated fails for the empty list: the active tenant name is not empty or
  null but \<open>Unknown Organization\<close>, and the redirect says so. It also fails for a
  tenant whose name the provider sends as a lone surrogate: the redirect is an error.
\<close>

theorem empty_tenant_name_counterexample:
  "json (\<lparr>status = 200, body_text = [], json = (Inr [] :: js_error + connection list)\<rparr>) = Inr []
   \<and> active_tenantName [] = Some ''Unknown Organization''
   \<and> snd (xero_callback_handler node_lib (demo_world []) good_event)
       = Inr \<lparr>statusCode = 302,
            headers = [(''Location'', ''/?auth=success&tenantName=Unknown%20Organization&tenantId=&multipleOrgs=false&tenants=%5B%5D&tokens=%7B%22access_token%22%3A%22at%22%2C%22refresh_token%22%3A%22rt%22%2C%22expires_at%22%3A1700001800000%7D''),
                       (''Cache-Control'', ''no-cache'')],
            body = None\<rparr>
   \<and> active_tenantName lone_surrogate_tenant = Some [CHR 0xED, CHR 0xA0, CHR 0xBD]
   \<and> snd (xero_callback_handler node_lib (demo_world lone_surrogate_tenant) good_event)
       = Inr \<lparr>statusCode = 302,
            headers = [(''Location'', ''/?auth=error&message=Server%20error%3A%20URI%20malformed''),
                       (''Cache-Control'', ''no-cache'')],
            body = None\<rparr>"
  by code_simp

lemma digit_char_not_lead: "digit_char n \<noteq> CHR 0xED"
proof -
  have "digit_char n \<in> set ''0123456789ABCDEF''"
    unfolding digit_char_def by (rule nth_mem) simp
  then show ?thesis by auto
qed

lemma show_digits_without_lead:
  "CHR 0xED \<notin> set acc \<Longrightarrow> CHR 0xED \<notin> set (show_digits n acc)"
proof (induction n acc rule: show_digits.induct)
  case (1 n acc)
  show ?case
  proof (cases "n < 10")
    case True
    with 1 digit_char_not_lead [of n] show ?thesis
      by (subst show_digits.simps) auto
  next
    case False
    have "CHR 0xED \<notin> set (digit_char (n mod 10) # acc)"
      using 1(2) digit_char_not_lead [of "n mod 10"] by auto
    from 1(1) [OF False this] False show ?thesis
      by (subst show_digits.simps) simp
  qed
qed

lemma well_formed_exchange_failure:
  "well_formed (''Failed to exchange code for tokens ('' @ show_nat n @ '')'')"
proof (rule well_formed_without_lead)
  have "CHR 0xED \<notin> set (show_nat n)"
    unfolding show_nat_def by (rule show_digits_without_lead) simp
  then show "CHR 0xED \<notin> set (''Failed to exchange code for tokens ('' @ show_nat n @ '')'')"
    by simp
qed

lemma pair_snd: "p = (a, b) \<Longrightarrow> snd p = b"
  by simp

text \<open>
  Claim C2, as the code has it. Each exit other than the success return is named with
  the requests issued before it and ends in \<open>redirectWithError\<close> called on its own
  message: the provider error, the missing code, the missing state, the absent cookie,
  the cookie that does not decode, the state mismatch, the missing credentials, the
  token request that rejects, the token response that is not 2xx or is not JSON, the
  tenant fetch that rejects, is not 2xx or is not JSON, and the success expression that
  throws. What \<open>redirectWithError\<close> returns (it throws on a message that holds a lone
  surrogate) has the headers \<open>Location\<close> and \<open>Cache-Control\<close> and no
  \<open>Set-Cookie\<close>: these exits leave the correlation cookie as it is. Every outcome is
  one of these calls or the success object.
\<close>

theorem error_exits_send_no_cookie:
  assumes "params = queryStringParameters event"
    and "xeroCookie = cookie_parse L (or_str (cookie_header event) []) ''xero_auth''"
    and "providerError =
           ''Authentication error: ''
           @ (if truthy_str (params ''error_description'')
              then template_str (params ''error_description'')
              else template_str (params ''error''))"
    and "validated =
           (\<not> truthy_str (params ''error'') \<and> truthy_str (params ''code'')
            \<and> truthy_str (params ''state'') \<and> truthy_str xeroCookie
            \<and> decodeURIComponent L (or_str xeroCookie []) = Inr decoded
            \<and> qs_get (querystring_parse L decoded) ''state'' = Str (or_str (params ''state'') [])
            \<and> truthy_str (XERO_CLIENT_ID (env W)) \<and> truthy_str (XERO_CLIENT_SECRET (env W)))"
    and "tokenRequest =
           callback_token_request W (or_str (params ''code'') [])
             (qs_get (querystring_parse L decoded) ''code_verifier'')
             (or_str (XERO_CLIENT_ID (env W)) []) (or_str (XERO_CLIENT_SECRET (env W)) [])"
    and "exchanged =
           (validated \<and> fetch_token W tokenRequest = Inr tokenResponse \<and> ok tokenResponse
            \<and> json tokenResponse = Inr tokenData)"
  shows
  "(truthy_str (params ''error'') \<longrightarrow>
      xero_callback_handler L W event =
        ([], redirectWithError L (if well_formed providerError then providerError
               else ''Server error: URI malformed'')))
   \<and> (\<not> truthy_str (params ''error'') \<and> \<not> truthy_str (params ''code'') \<longrightarrow>
      xero_callback_handler L W event =
        ([], redirectWithError L ''No authorization code received from Xero''))
   \<and> (\<not> truthy_str (params ''error'') \<and> truthy_str (params ''code'')
       \<and> \<not> truthy_str (params ''state'') \<longrightarrow>
      xero_callback_handler L W event =
        ([], redirectWithError L ''Invalid authentication request (missing state)''))
   \<and> (\<not> truthy_str (params ''error'') \<and> truthy_str (params ''code'')
       \<and> truthy_str (params ''state'') \<and> \<not> truthy_str xeroCookie \<longrightarrow>
      xero_callback_handler L W event =
        ([], redirectWithError L ''Authentication session expired or invalid''))
   \<and> (\<not> truthy_str (params ''error'') \<and> truthy_str (params ''code'')
       \<and> truthy_str (params ''state'') \<and> truthy_str xeroCookie
       \<and> decodeURIComponent L (or_str xeroCookie []) = Inl e \<longrightarrow>
      xero_callback_handler L W event =
        ([], redirectWithError L (''Server error: '' @ message e)))
   \<and> (\<not> truthy_str (params ''error'') \<and> truthy_str (params ''code'')
       \<and> truthy_str (params ''state'') \<and> truthy_str xeroCookie
       \<and> decodeURIComponent L (or_str xeroCookie []) = Inr decoded
       \<and> qs_get (querystring_parse L decoded) ''state'' \<noteq> Str (or_str (params ''state'') []) \<longrightarrow>
      xero_callback_handler L W event =
        ([], redirectWithError L ''Invalid authentication request (state mismatch)''))
   \<and> (\<not> truthy_str (params ''error'') \<and> truthy_str (params ''code'')
       \<and> truthy_str (params ''state'') \<and> truthy_str xeroCookie
       \<and> decodeURIComponent L (or_str xeroCookie []) = Inr decoded
       \<and> qs_get (querystring_parse L decoded) ''state'' = Str (or_str (params ''state'') [])
       \<and> (\<not> truthy_str (XERO_CLIENT_ID (env W)) \<or> \<not> truthy_str (XERO_CLIENT_SECRET (env W))) \<longrightarrow>
      xero_callback_handler L W event =
        ([], redirectWithError L ''Server configuration error (missing Xero credentials)''))
   \<and> (validated \<and> fetch_token W tokenRequest = Inl e \<longrightarrow>
      xero_callback_handler L W event =
        ([tokenRequest], redirectWithError L (''Server error: '' @ message e)))
   \<and> (validated \<and> fetch_token W tokenRequest = Inr tokenResponse \<and> \<not> ok tokenResponse \<longrightarrow>
      xero_callback_handler L W event =
        ([tokenRequest], redirectWithError L (''Failed to exchange code for tokens (''
               @ show_nat (status tokenResponse) @ '')'')))
   \<and> (validated \<and> fetch_token W tokenRequest = Inr tokenResponse \<and> ok tokenResponse
       \<and> json tokenResponse = Inl e \<longrightarrow>
      xero_callback_handler L W event =
        ([tokenRequest], redirectWithError L (''Server error: '' @ message e)))
   \<and> (exchanged \<and> fetch_connections W (connections_request tokenData) = Inl e \<longrightarrow>
      xero_callback_handler L W event =
        ([tokenRequest, connections_request tokenData], redirectWithError L (''Server error: '' @ message e)))
   \<and> (exchanged \<and> fetch_connections W (connections_request tokenData) = Inr userInfoResponse
       \<and> \<not> ok userInfoResponse \<longrightarrow>
      xero_callback_handler L W event =
        ([tokenRequest, connections_request tokenData], redirectWithError L ''Connected to Xero, but failed to get user details''))
   \<and> (exchanged \<and> fetch_connections W (connections_request tokenData) = Inr userInfoResponse
       \<and> ok userInfoResponse \<and> json userInfoResponse = Inl e \<longrightarrow>
      xero_callback_handler L W event =
        ([tokenRequest, connections_request tokenData], redirectWithError L (''Server error: '' @ message e)))
   \<and> (exchanged \<and> fetch_connections W (connections_request tokenData) = Inr userInfoResponse
       \<and> ok userInfoResponse \<and> json userInfoResponse = Inr connections
       \<and> callback_success L W tokenData connections = Inl e \<longrightarrow>
      xero_callback_handler L W event =
        ([tokenRequest, connections_request tokenData], redirectWithError L (''Server error: '' @ message e)))
   \<and> (redirectWithError L msg = Inr r \<longrightarrow>
      headers r = [(''Location'', ''/?auth=error&message='' @ encodeURIComponent L msg),
                   (''Cache-Control'', ''no-cache'')]
      \<and> map_of (headers r) ''Set-Cookie'' = None)
   \<and> ((\<exists>m. snd (xero_callback_handler L W event) = redirectWithError L m)
      \<or> (\<exists>td cs s. callback_success L W td cs = Inr s
                     \<and> snd (xero_callback_handler L W event) = Inr s))"
proof -
  have cases: "(\<exists>m. snd (xero_callback_handler L W event) = redirectWithError L m)
      \<or> (\<exists>td cs s. callback_success L W td cs = Inr s
                     \<and> snd (xero_callback_handler L W event) = Inr s)"
    by (rule callback_cases) auto
  have hdr: "redirectWithError L msg = Inr r \<longrightarrow>
      headers r = [(''Location'', ''/?auth=error&message='' @ encodeURIComponent L msg),
                   (''Cache-Control'', ''no-cache'')]
      \<and> map_of (headers r) ''Set-Cookie'' = None"
    by (auto dest!: redirectWithError_Inr(2))
  note defs = xero_callback_handler_def callback_try_def exchange_code_def fetch_user_info_def
    Let_def caught_Inl caught_redirect caught_well_formed well_formed_messages
    well_formed_exchange_failure [simplified]
  show ?thesis
    unfolding assms
    apply (intro conjI)
                  subgoal by (simp add: defs)
                  subgoal by (simp add: defs)
                  subgoal by (simp add: defs)
                  subgoal by (simp add: defs)
                  subgoal by (simp add: defs)
                  subgoal by (simp add: defs)
                  subgoal by (simp add: defs)
                  subgoal by (simp add: defs)
                  subgoal by (simp add: defs)
                  subgoal by (simp add: defs)
                  subgoal by (simp add: defs)
                  subgoal by (simp add: defs)
                  subgoal by (simp add: defs)
                  subgoal by (simp add: defs)
     subgoal by (rule hdr)
    subgoal by (rule cases)
    done
qed

text \<open>One callback for each of the fourteen exits, and the headers of the missing-code redirect.\<close>

theorem error_exits_send_no_cookie_witness:
  "snd (xero_callback_handler node_lib (demo_world []) denied_event)
     = redirectWithError node_lib ''Authentication error: access_denied''
   \<and> snd (xero_callback_handler node_lib (demo_world []) (callback_event [(''state'', ''X'')] None))
     = redirectWithError node_lib ''No authorization code received from Xero''
   \<and> snd (xero_callback_handler node_lib (demo_world []) (callback_event [(''code'', ''c0'')] None))
     = redirectWithError node_lib ''Invalid authentication request (missing state)''
   \<and> snd (xero_callback_handler node_lib (demo_world []) (callback_event [(''code'', ''c0''), (''state'', ''X'')] None))
     = redirectWithError node_lib ''Authentication session expired or invalid''
   \<and> snd (xero_callback_handler node_lib (demo_world []) malformed_cookie_event)
     = redirectWithError node_lib (''Server error: '' @ message (JsError ''URI malformed''))
   \<and> snd (xero_callback_handler node_lib (demo_world []) mismatch_event)
     = redirectWithError node_lib ''Invalid authentication request (state mismatch)''
   \<and> snd (xero_callback_handler node_lib (no_secret_world) good_event)
     = redirectWithError node_lib ''Server configuration error (missing Xero credentials)''
   \<and> snd (xero_callback_handler node_lib (token_outcome_world (Inl (JsError ''socket hang up''))) good_event)
     = redirectWithError node_lib (''Server error: '' @ message (JsError ''socket hang up''))
   \<and> snd (xero_callback_handler node_lib (failing_world 400 []) good_event)
     = redirectWithError node_lib (''Failed to exchange code for tokens ('' @ show_nat 400 @ '')'')
   \<and> snd (xero_callback_handler node_lib (failing_world 200 []) good_event)
     = redirectWithError node_lib (''Server error: '' @ message (JsError ''invalid json response body''))
   \<and> snd (xero_callback_handler node_lib (tenant_outcome_world (Inl (JsError ''socket hang up''))) good_event)
     = redirectWithError node_lib (''Server error: '' @ message (JsError ''socket hang up''))
   \<and> snd (xero_callback_handler node_lib (tenant_outcome_world (Inr \<lparr>status = 403, body_text = [], json = (Inr [] :: js_error + connection list)\<rparr>)) good_event)
     = redirectWithError node_lib ''Connected to Xero, but failed to get user details''
   \<and> snd (xero_callback_handler node_lib (tenant_outcome_world (Inr \<lparr>status = 200, body_text = [], json = (Inl (JsError ''invalid json response body'') :: js_error + connection list)\<rparr>)) good_event)
     = redirectWithError node_lib (''Server error: '' @ message (JsError ''invalid json response body''))
   \<and> snd (xero_callback_handler node_lib (demo_world lone_surrogate_tenant) good_event)
     = redirectWithError node_lib (''Server error: '' @ message (JsError ''URI malformed''))
   \<and> headers \<lparr>statusCode = 302,
         headers = [(''Location'', ''/?auth=error&message=No%20authorization%20code%20received%20from%20Xero''),
                    (''Cache-Control'', ''no-cache'')],
         body = None\<rparr>
     = [(''Location'', ''/?auth=error&message='' @ encodeURIComponent node_lib ''No authorization code received from Xero''),
        (''Cache-Control'', ''no-cache'')]
   \<and> map_of (headers \<lparr>statusCode = 302,
         headers = [(''Location'', ''/?auth=error&message=No%20authorization%20code%20received%20from%20Xero''),
                    (''Cache-Control'', ''no-cache'')],
         body = None\<rparr>) ''Set-Cookie'' = None"
proof -
  have h1: "truthy_str (queryStringParameters denied_event ''error'')"
    by code_simp
  note c1 = error_exits_send_no_cookie [where event = "denied_event" and L = node_lib
      and W = "demo_world []", OF refl refl refl refl refl refl,
      THEN conjunct1, THEN mp, OF h1, THEN pair_snd]
  have t1: "template_str (queryStringParameters denied_event ''error'') = ''access_denied''
            \<and> \<not> truthy_str (queryStringParameters denied_event ''error_description'')
            \<and> well_formed ''Authentication error: access_denied''"
    by code_simp
  from c1 t1 have s1: "snd (xero_callback_handler node_lib (demo_world []) denied_event)
     = redirectWithError node_lib ''Authentication error: access_denied''"
    by simp
  have h2: "\<not> truthy_str (queryStringParameters (callback_event [(''state'', ''X'')] None) ''error'') \<and> \<not> truthy_str (queryStringParameters (callback_event [(''state'', ''X'')] None) ''code'')"
    by code_simp
  note c2 = error_exits_send_no_cookie [where event = "callback_event [(''state'', ''X'')] None" and L = node_lib
      and W = "demo_world []", OF refl refl refl refl refl refl,
      THEN conjunct2, THEN conjunct1, THEN mp, OF h2, THEN pair_snd]
  note s2 = c2
  have h3: "\<not> truthy_str (queryStringParameters (callback_event [(''code'', ''c0'')] None) ''error'') \<and> truthy_str (queryStringParameters (callback_event [(''code'', ''c0'')] None) ''code'')
       \<and> \<not> truthy_str (queryStringParameters (callback_event [(''code'', ''c0'')] None) ''state'')"
    by code_simp
  note c3 = error_exits_send_no_cookie [where event = "callback_event [(''code'', ''c0'')] None" and L = node_lib
      and W = "demo_world []", OF refl refl refl refl refl refl,
      THEN conjunct2, THEN conjunct2, THEN conjunct1, THEN mp, OF h3, THEN pair_snd]
  note s3 = c3
  have h4: "\<not> truthy_str (queryStringParameters (callback_event [(''code'', ''c0''), (''state'', ''X'')] None) ''error'') \<and> truthy_str (queryStringParameters (callback_event [(''code'', ''c0''), (''state'', ''X'')] None) ''code'')
       \<and> truthy_str (queryStringParameters (callback_event [(''code'', ''c0''), (''state'', ''X'')] None) ''state'') \<and> \<not> truthy_str (cookie_parse node_lib (or_str (cookie_header (callback_event [(''code'', ''c0''), (''state'', ''X'')] None)) []) ''xero_auth'')"
    by code_simp
  note c4 = error_exits_send_no_cookie [where event = "callback_event [(''code'', ''c0''), (''state'', ''X'')] None" and L = node_lib
      and W = "demo_world []", OF refl refl refl refl refl refl,
      THEN conjunct2, THEN conjunct2, THEN conjunct2, THEN conjunct1, THEN mp, OF h4, THEN pair_snd]
  note s4 = c4
  have h5: "\<not> truthy_str (queryStringParameters malformed_cookie_event ''error'') \<and> truthy_str (queryStringParameters malformed_cookie_event ''code'')
       \<and> truthy_str (queryStringParameters malformed_cookie_event ''state'') \<and> truthy_str (cookie_parse node_lib (or_str (cookie_header malformed_cookie_event) []) ''xero_auth'')
       \<and> decodeURIComponent node_lib (or_str (cookie_parse node_lib (or_str (cookie_header malformed_cookie_event) []) ''xero_auth'') []) = Inl (JsError ''URI malformed'')"
    by code_simp
  note c5 = error_exits_send_no_cookie [where event = "malformed_cookie_event" and L = node_lib
      and W = "demo_world []", OF refl refl refl refl refl refl,
      THEN conjunct2, THEN conjunct2, THEN conjunct2, THEN conjunct2, THEN conjunct1, THEN mp, OF h5, THEN pair_snd]
  note s5 = c5
  have h6: "\<not> truthy_str (queryStringParameters mismatch_event ''error'') \<and> truthy_str (queryStringParameters mismatch_event ''code'')
       \<and> truthy_str (queryStringParameters mismatch_event ''state'') \<and> truthy_str (cookie_parse node_lib (or_str (cookie_header mismatch_event) []) ''xero_auth'')
       \<and> decodeURIComponent node_lib (or_str (cookie_parse node_lib (or_str (cookie_header mismatch_event) []) ''xero_auth'') []) = Inr ''state=Y&code_verifier=v0''
       \<and> qs_get (querystring_parse node_lib ''state=Y&code_verifier=v0'') ''state'' \<noteq> Str (or_str (queryStringParameters mismatch_event ''state'') [])"
    by code_simp
  note c6 = error_exits_send_no_cookie [where event = "mismatch_event" and L = node_lib
      and W = "demo_world []", OF refl refl refl refl refl refl,
      THEN conjunct2, THEN conjunct2, THEN conjunct2, THEN conjunct2, THEN conjunct2, THEN conjunct1, THEN mp, OF h6, THEN pair_snd]
  note s6 = c6
  have h7: "\<not> truthy_str (queryStringParameters good_event ''error'') \<and> truthy_str (queryStringParameters good_event ''code'')
       \<and> truthy_str (queryStringParameters good_event ''state'') \<and> truthy_str (cookie_parse node_lib (or_str (cookie_header good_event) []) ''xero_auth'')
       \<and> decodeURIComponent node_lib (or_str (cookie_parse node_lib (or_str (cookie_header good_event) []) ''xero_auth'') []) = Inr ''state=X&code_verifier=v0''
       \<and> qs_get (querystring_parse node_lib ''state=X&code_verifier=v0'') ''state'' = Str (or_str (queryStringParameters good_event ''state'') [])
       \<and> (\<not> truthy_str (XERO_CLIENT_ID (env no_secret_world)) \<or> \<not> truthy_str (XERO_CLIENT_SECRET (env no_secret_world)))"
    by code_simp
  note c7 = error_exits_send_no_cookie [where event = "good_event" and L = node_lib
      and W = "no_secret_world", OF refl refl refl refl refl refl,
      THEN conjunct2, THEN conjunct2, THEN conjunct2, THEN conjunct2, THEN conjunct2, THEN conjunct2, THEN conjunct1, THEN mp, OF h7, THEN pair_snd]
  note s7 = c7
  have h8: "(\<not> truthy_str (queryStringParameters good_event ''error'') \<and> truthy_str (queryStringParameters good_event ''code'')
       \<and> truthy_str (queryStringParameters good_event ''state'') \<and> truthy_str (cookie_parse node_lib (or_str (cookie_header good_event) []) ''xero_auth'')
       \<and> decodeURIComponent node_lib (or_str (cookie_parse node_lib (or_str (cookie_header good_event) []) ''xero_auth'') []) = Inr ''state=X&code_verifier=v0''
       \<and> qs_get (querystring_parse node_lib ''state=X&code_verifier=v0'') ''state'' = Str (or_str (queryStringParameters good_event ''state'') [])
       \<and> truthy_str (XERO_CLIENT_ID (env (token_outcome_world (Inl (JsError ''socket hang up''))))) \<and> truthy_str (XERO_CLIENT_SECRET (env (token_outcome_world (Inl (JsError ''socket hang up''))))))
       \<and> fetch_token (token_outcome_world (Inl (JsError ''socket hang up''))) (callback_token_request (token_outcome_world (Inl (JsError ''socket hang up''))) (or_str (queryStringParameters good_event ''code'') [])
          (qs_get (querystring_parse node_lib ''state=X&code_verifier=v0'') ''code_verifier'')
          (or_str (XERO_CLIENT_ID (env (token_outcome_world (Inl (JsError ''socket hang up''))))) []) (or_str (XERO_CLIENT_SECRET (env (token_outcome_world (Inl (JsError ''socket hang up''))))) [])) = Inl (JsError ''socket hang up'')"
    by code_simp
  note c8 = error_exits_send_no_cookie [where event = "good_event" and L = node_lib
      and W = "token_outcome_world (Inl (JsError ''socket hang up''))", OF refl refl refl refl refl refl,
      THEN conjunct2, THEN conjunct2, THEN conjunct2, THEN conjunct2, THEN conjunct2, THEN conjunct2, THEN conjunct2, THEN conjunct1, THEN mp, OF h8, THEN pair_snd]
  note s8 = c8
  have h9: "(\<not> truthy_str (queryStringParameters good_event ''error'') \<and> truthy_str (queryStringParameters good_event ''code'')
       \<and> truthy_str (queryStringParameters good_event ''state'') \<and> truthy_str (cookie_parse node_lib (or_str (cookie_header good_event) []) ''xero_auth'')
       \<and> decodeURIComponent node_lib (or_str (cookie_parse node_lib (or_str (cookie_header good_event) []) ''xero_auth'') []) = Inr ''state=X&code_verifier=v0''
       \<and> qs_get (querystring_parse node_lib ''state=X&code_verifier=v0'') ''state'' = Str (or_str (queryStringParameters good_event ''state'') [])
       \<and> truthy_str (XERO_CLIENT_ID (env (failing_world 400 []))) \<and> truthy_str (XERO_CLIENT_SECRET (env (failing_world 400 []))))
       \<and> fetch_token (failing_world 400 []) (callback_token_request (failing_world 400 []) (or_str (queryStringParameters good_event ''code'') [])
          (qs_get (querystring_parse node_lib ''state=X&code_verifier=v0'') ''code_verifier'')
          (or_str (XERO_CLIENT_ID (env (failing_world 400 []))) []) (or_str (XERO_CLIENT_SECRET (env (failing_world 400 []))) [])) = Inr \<lparr>status = 400, body_text = [], json = (Inl (JsError ''invalid json response body'') :: js_error + token_data)\<rparr>
       \<and> \<not> ok \<lparr>status = 400, body_text = [], json = (Inl (JsError ''invalid json response body'') :: js_error + token_data)\<rparr>"
    by code_simp
  note c9 = error_exits_send_no_cookie [where event = "good_event" and L = node_lib
      and W = "failing_world 400 []", OF refl refl refl refl refl refl,
      THEN conjunct2, THEN conjunct2, THEN conjunct2, THEN conjunct2, THEN conjunct2, THEN conjunct2, THEN conjunct2, THEN conjunct2, THEN conjunct1, THEN mp, OF h9, THEN pair_snd]
  from c9 have s9: "snd (xero_callback_handler node_lib (failing_world 400 []) good_event)
     = redirectWithError node_lib (''Failed to exchange code for tokens ('' @ show_nat 400 @ '')'')"
    by simp
  have h10: "(\<not> truthy_str (queryStringParameters good_event ''error'') \<and> truthy_str (queryStringParameters good_event ''code'')
       \<and> truthy_str (queryStringParameters good_event ''state'') \<and> truthy_str (cookie_parse node_lib (or_str (cookie_header good_event) []) ''xero_auth'')
       \<and> decodeURIComponent node_lib (or_str (cookie_parse node_lib (or_str (cookie_header good_event) []) ''xero_auth'') []) = Inr ''state=X&code_verifier=v0''
       \<and> qs_get (querystring_parse node_lib ''state=X&code_verifier=v0'') ''state'' = Str (or_str (queryStringParameters good_event ''state'') [])
       \<and> truthy_str (XERO_CLIENT_ID (env (failing_world 200 []))) \<and> truthy_str (XERO_CLIENT_SECRET (env (failing_world 200 []))))
       \<and> fetch_token (failing_world 200 []) (callback_token_request (failing_world 200 []) (or_str (queryStringParameters good_event ''code'') [])
          (qs_get (querystring_parse node_lib ''state=X&code_verifier=v0'') ''code_verifier'')
          (or_str (XERO_CLIENT_ID (env (failing_world 200 []))) []) (or_str (XERO_CLIENT_SECRET (env (failing_world 200 []))) [])) = Inr \<lparr>status = 200, body_text = [], json = (Inl (JsError ''invalid json response body'') :: js_error + token_data)\<rparr>
       \<and> ok \<lparr>status = 200, body_text = [], json = (Inl (JsError ''invalid json response body'') :: js_error + token_data)\<rparr> \<and> json \<lparr>status = 200, body_text = [], json = (Inl (JsError ''invalid json response body'') :: js_error + token_data)\<rparr> = Inl (JsError ''invalid json response body'')"
    by code_simp
  note c10 = error_exits_send_no_cookie [where event = "good_event" and L = node_lib
      and W = "failing_world 200 []", OF refl refl refl refl refl refl,
      THEN conjunct2, THEN conjunct2, THEN conjunct2, THEN conjunct2, THEN conjunct2, THEN conjunct2, THEN conjunct2, THEN conjunct2, THEN conjunct2, THEN conjunct1, THEN mp, OF h10, THEN pair_snd]
  note s10 = c10
  have h11: "((\<not> truthy_str (queryStringParameters good_event ''error'') \<and> truthy_str (queryStringParameters good_event ''code'')
       \<and> truthy_str (queryStringParameters good_event ''state'') \<and> truthy_str (cookie_parse node_lib (or_str (cookie_header good_event) []) ''xero_auth'')
       \<and> decodeURIComponent node_lib (or_str (cookie_parse node_lib (or_str (cookie_header good_event) []) ''xero_auth'') []) = Inr ''state=X&code_verifier=v0''
       \<and> qs_get (querystring_parse node_lib ''state=X&code_verifier=v0'') ''state'' = Str (or_str (queryStringParameters good_event ''state'') [])
       \<and> truthy_str (XERO_CLIENT_ID (env (tenant_outcome_world (Inl (JsError ''socket hang up''))))) \<and> truthy_str (XERO_CLIENT_SECRET (env (tenant_outcome_world (Inl (JsError ''socket hang up''))))))
       \<and> fetch_token (tenant_outcome_world (Inl (JsError ''socket hang up''))) (callback_token_request (tenant_outcome_world (Inl (JsError ''socket hang up''))) (or_str (queryStringParameters good_event ''code'') [])
          (qs_get (querystring_parse node_lib ''state=X&code_verifier=v0'') ''code_verifier'')
          (or_str (XERO_CLIENT_ID (env (tenant_outcome_world (Inl (JsError ''socket hang up''))))) []) (or_str (XERO_CLIENT_SECRET (env (tenant_outcome_world (Inl (JsError ''socket hang up''))))) [])) = Inr \<lparr>status = 200, body_text = [], json = (Inr demo_tokens :: js_error + token_data)\<rparr>
       \<and> ok \<lparr>status = 200, body_text = [], json = (Inr demo_tokens :: js_error + token_data)\<rparr> \<and> json \<lparr>status = 200, body_text = [], json = (Inr demo_tokens :: js_error + token_data)\<rparr> = Inr demo_tokens)
       \<and> fetch_connections (tenant_outcome_world (Inl (JsError ''socket hang up''))) (connections_request demo_tokens) = Inl (JsError ''socket hang up'')"
    by code_simp
  note c11 = error_exits_send_no_cookie [where event = "good_event" and L = node_lib
      and W = "tenant_outcome_world (Inl (JsError ''socket hang up''))", OF refl refl refl refl refl refl,
      THEN conjunct2, THEN conjunct2, THEN conjunct2, THEN conjunct2, THEN conjunct2, THEN conjunct2, THEN conjunct2, THEN conjunct2, THEN conjunct2, THEN conjunct2, THEN conjunct1, THEN mp, OF h11, THEN pair_snd]
  note s11 = c11
  have h12: "((\<not> truthy_str (queryStringParameters good_event ''error'') \<and> truthy_str (queryStringParameters good_event ''code'')
       \<and> truthy_str (queryStringParameters good_event ''state'') \<and> truthy_str (cookie_parse node_lib (or_str (cookie_header good_event) []) ''xero_auth'')
       \<and> decodeURIComponent node_lib (or_str (cookie_parse node_lib (or_str (cookie_header good_event) []) ''xero_auth'') []) = Inr ''state=X&code_verifier=v0''
       \<and> qs_get (querystring_parse node_lib ''state=X&code_verifier=v0'') ''state'' = Str (or_str (queryStringParameters good_event ''state'') [])
       \<and> truthy_str (XERO_CLIENT_ID (env (tenant_outcome_world (Inr \<lparr>status = 403, body_text = [], json = (Inr [] :: js_error + connection list)\<rparr>)))) \<and> truthy_str (XERO_CLIENT_SECRET (env (tenant_outcome_world (Inr \<lparr>status = 403, body_text = [], json = (Inr [] :: js_error + connection list)\<rparr>)))))
       \<and> fetch_token (tenant_outcome_world (Inr \<lparr>status = 403, body_text = [], json = (Inr [] :: js_error + connection list)\<rparr>)) (callback_token_request (tenant_outcome_world (Inr \<lparr>status = 403, body_text = [], json = (Inr [] :: js_error + connection list)\<rparr>)) (or_str (queryStringParameters good_event ''code'') [])
          (qs_get (querystring_parse node_lib ''state=X&code_verifier=v0'') ''code_verifier'')
          (or_str (XERO_CLIENT_ID (env (tenant_outcome_world (Inr \<lparr>status = 403, body_text = [], json = (Inr [] :: js_error + connection list)\<rparr>)))) []) (or_str (XERO_CLIENT_SECRET (env (tenant_outcome_world (Inr \<lparr>status = 403, body_text = [], json = (Inr [] :: js_error + connection list)\<rparr>)))) [])) = Inr \<lparr>status = 200, body_text = [], json = (Inr demo_tokens :: js_error + token_data)\<rparr>
       \<and> ok \<lparr>status = 200, body_text = [], json = (Inr demo_tokens :: js_error + token_data)\<rparr> \<and> json \<lparr>status = 200, body_text = [], json = (Inr demo_tokens :: js_error + token_data)\<rparr> = Inr demo_tokens)
       \<and> fetch_connections (tenant_outcome_world (Inr \<lparr>status = 403, body_text = [], json = (Inr [] :: js_error + connection list)\<rparr>)) (connections_request demo_tokens) = Inr \<lparr>status = 403, body_text = [], json = (Inr [] :: js_error + connection list)\<rparr>
       \<and> \<not> ok \<lparr>status = 403, body_text = [], json = (Inr [] :: js_error + connection list)\<rparr>"
    by code_simp
  note c12 = error_exits_send_no_cookie [where event = "good_event" and L = node_lib
      and W = "tenant_outcome_world (Inr \<lparr>status = 403, body_text = [], json = (Inr [] :: js_error + connection list)\<rparr>)", OF refl refl refl refl refl refl,
      THEN conjunct2, THEN conjunct2, THEN conjunct2, THEN conjunct2, THEN conjunct2, THEN conjunct2, THEN conjunct2, THEN conjunct2, THEN conjunct2, THEN conjunct2, THEN conjunct2, THEN conjunct1, THEN mp, OF h12, THEN pair_snd]
  note s12 = c12
  have h13: "((\<not> truthy_str (queryStringParameters good_event ''error'') \<and> truthy_str (queryStringParameters good_event ''code'')
       \<and> truthy_str (queryStringParameters good_event ''state'') \<and> truthy_str (cookie_parse node_lib (or_str (cookie_header good_event) []) ''xero_auth'')
       \<and> decodeURIComponent node_lib (or_str (cookie_parse node_lib (or_str (cookie_header good_event) []) ''xero_auth'') []) = Inr ''state=X&code_verifier=v0''
       \<and> qs_get (querystring_parse node_lib ''state=X&code_verifier=v0'') ''state'' = Str (or_str (queryStringParameters good_event ''state'') [])
       \<and> truthy_str (XERO_CLIENT_ID (env (tenant_outcome_world (Inr \<lparr>status = 200, body_text = [], json = (Inl (JsError ''invalid json response body'') :: js_error + connection list)\<rparr>)))) \<and> truthy_str (XERO_CLIENT_SECRET (env (tenant_outcome_world (Inr \<lparr>status = 200, body_text = [], json = (Inl (JsError ''invalid json response body'') :: js_error + connection list)\<rparr>)))))
       \<and> fetch_token (tenant_outcome_world (Inr \<lparr>status = 200, body_text = [], json = (Inl (JsError ''invalid json response body'') :: js_error + connection list)\<rparr>)) (callback_token_request (tenant_outcome_world (Inr \<lparr>status = 200, body_text = [], json = (Inl (JsError ''invalid json response body'') :: js_error + connection list)\<rparr>)) (or_str (queryStringParameters good_event ''code'') [])
          (qs_get (querystring_parse node_lib ''state=X&code_verifier=v0'') ''code_verifier'')
          (or_str (XERO_CLIENT_ID (env (tenant_outcome_world (Inr \<lparr>status = 200, body_text = [], json = (Inl (JsError ''invalid json response body'') :: js_error + connection list)\<rparr>)))) []) (or_str (XERO_CLIENT_SECRET (env (tenant_outcome_world (Inr \<lparr>status = 200, body_text = [], json = (Inl (JsError ''invalid json response body'') :: js_error + connection list)\<rparr>)))) [])) = Inr \<lparr>status = 200, body_text = [], json = (Inr demo_tokens :: js_error + token_data)\<rparr>
       \<and> ok \<lparr>status = 200, body_text = [], json = (Inr demo_tokens :: js_error + token_data)\<rparr> \<and> json \<lparr>status = 200, body_text = [], json = (Inr demo_tokens :: js_error + token_data)\<rparr> = Inr demo_tokens)
       \<and> fetch_connections (tenant_outcome_world (Inr \<lparr>status = 200, body_text = [], json = (Inl (JsError ''invalid json response body'') :: js_error + connection list)\<rparr>)) (connections_request demo_tokens) = Inr \<lparr>status = 200, body_text = [], json = (Inl (JsError ''invalid json response body'') :: js_error + connection list)\<rparr>
       \<and> ok \<lparr>status = 200, body_text = [], json = (Inl (JsError ''invalid json response body'') :: js_error + connection list)\<rparr> \<and> json \<lparr>status = 200, body_text = [], json = (Inl (JsError ''invalid json response body'') :: js_error + connection list)\<rparr> = Inl (JsError ''invalid json response body'')"
    by code_simp
  note c13 = error_exits_send_no_cookie [where event = "good_event" and L = node_lib
      and W = "tenant_outcome_world (Inr \<lparr>status = 200, body_text = [], json = (Inl (JsError ''invalid json response body'') :: js_error + connection list)\<rparr>)", OF refl refl refl refl refl refl,
      THEN conjunct2, THEN conjunct2, THEN conjunct2, THEN conjunct2, THEN conjunct2, THEN conjunct2, THEN conjunct2, THEN conjunct2, THEN conjunct2, THEN conjunct2, THEN conjunct2, THEN conjunct2, THEN conjunct1, THEN mp, OF h13, THEN pair_snd]
  note s13 = c13
  have h14: "((\<not> truthy_str (queryStringParameters good_event ''error'') \<and> truthy_str (queryStringParameters good_event ''code'')
       \<and> truthy_str (queryStringParameters good_event ''state'') \<and> truthy_str (cookie_parse node_lib (or_str (cookie_header good_event) []) ''xero_auth'')
       \<and> decodeURIComponent node_lib (or_str (cookie_parse node_lib (or_str (cookie_header good_event) []) ''xero_auth'') []) = Inr ''state=X&code_verifier=v0''
       \<and> qs_get (querystring_parse node_lib ''state=X&code_verifier=v0'') ''state'' = Str (or_str (queryStringParameters good_event ''state'') [])
       \<and> truthy_str (XERO_CLIENT_ID (env (demo_world lone_surrogate_tenant))) \<and> truthy_str (XERO_CLIENT_SECRET (env (demo_world lone_surrogate_tenant))))
       \<and> fetch_token (demo_world lone_surrogate_tenant) (callback_token_request (demo_world lone_surrogate_tenant) (or_str (queryStringParameters good_event ''code'') [])
          (qs_get (querystring_parse node_lib ''state=X&code_verifier=v0'') ''code_verifier'')
          (or_str (XERO_CLIENT_ID (env (demo_world lone_surrogate_tenant))) []) (or_str (XERO_CLIENT_SECRET (env (demo_world lone_surrogate_tenant))) [])) = Inr \<lparr>status = 200, body_text = [], json = (Inr demo_tokens :: js_error + token_data)\<rparr>
       \<and> ok \<lparr>status = 200, body_text = [], json = (Inr demo_tokens :: js_error + token_data)\<rparr> \<and> json \<lparr>status = 200, body_text = [], json = (Inr demo_tokens :: js_error + token_data)\<rparr> = Inr demo_tokens)
       \<and> fetch_connections (demo_world lone_surrogate_tenant) (connections_request demo_tokens) = Inr \<lparr>status = 200, body_text = [], json = (Inr lone_surrogate_tenant :: js_error + connection list)\<rparr>
       \<and> ok \<lparr>status = 200, body_text = [], json = (Inr lone_surrogate_tenant :: js_error + connection list)\<rparr> \<and> json \<lparr>status = 200, body_text = [], json = (Inr lone_surrogate_tenant :: js_error + connection list)\<rparr> = Inr lone_surrogate_tenant
       \<and> callback_success node_lib (demo_world lone_surrogate_tenant) demo_tokens lone_surrogate_tenant = Inl (JsError ''URI malformed'')"
    by code_simp
  note c14 = error_exits_send_no_cookie [where event = "good_event" and L = node_lib
      and W = "demo_world lone_surrogate_tenant", OF refl refl refl refl refl refl,
      THEN conjunct2, THEN conjunct2, THEN conjunct2, THEN conjunct2, THEN conjunct2, THEN conjunct2, THEN conjunct2, THEN conjunct2, THEN conjunct2, THEN conjunct2, THEN conjunct2, THEN conjunct2, THEN conjunct2, THEN conjunct1, THEN mp, OF h14, THEN pair_snd]
  note s14 = c14
  have hh: "redirectWithError node_lib ''No authorization code received from Xero'' = Inr \<lparr>statusCode = 302,
         headers = [(''Location'', ''/?auth=error&message=No%20authorization%20code%20received%20from%20Xero''),
                    (''Cache-Control'', ''no-cache'')],
         body = None\<rparr>"
    by code_simp
  note sh = error_exits_send_no_cookie [where event = good_event and L = node_lib
      and W = "demo_world []", OF refl refl refl refl refl refl,
      THEN conjunct2, THEN conjunct2, THEN conjunct2, THEN conjunct2, THEN conjunct2, THEN conjunct2, THEN conjunct2, THEN conjunct2, THEN conjunct2, THEN conjunct2, THEN conjunct2, THEN conjunct2, THEN conjunct2, THEN conjunct2, THEN conjunct1, THEN mp, OF hh]
  show ?thesis
    by (rule conjI [OF s1 conjI [OF s2 conjI [OF s3 conjI [OF s4 conjI [OF s5 conjI [OF s6 conjI [OF s7 conjI [OF s8 conjI [OF s9 conjI [OF s10 conjI [OF s11 conjI [OF s12 conjI [OF s13 conjI [OF s14 sh]]]]]]]]]]]]]])
qed

text \<open>
  Claim C2 as stated fails: a callback without a code is answered by a redirect that has
  no \<open>Set-Cookie\<close> header.
\<close>

theorem cookie_not_cleared_counterexample:
  "snd (xero_callback_handler node_lib (demo_world []) (callback_event [] None))
     = redirectWithError node_lib ''No authorization code received from Xero''
   \<and> snd (xero_callback_handler node_lib (demo_world []) (callback_event [] None))
     = Inr \<lparr>statusCode = 302,
         headers = [(''Location'', ''/?auth=error&message=No%20authorization%20code%20received%20from%20Xero''),
                    (''Cache-Control'', ''no-cache'')],
         body = None\<rparr>
   \<and> map_of (headers \<lparr>statusCode = 302,
         headers = [(''Location'', ''/?auth=error&message=No%20authorization%20code%20received%20from%20Xero''),
                    (''Cache-Control'', ''no-cache'')],
         body = None\<rparr>) ''Set-Cookie'' = None"
  by code_simp

lemma session_cookies_Inr:
  assumes "session_cookies L tokenData connections = Inr cookies"
  shows "length cookies = 5"
  using assms by (auto simp: session_cookies_eval split: if_splits)

lemma callback_success_builds_cookies:
  assumes "callback_success L W tokenData connections = Inr s"
  shows "\<exists>cookies. session_cookies L tokenData connections = Inr cookies"
  using assms
  by (cases "session_cookies L tokenData connections") (simp_all add: callback_success_def and_then_def)

lemma redirect_headers_no_cookie:
  assumes "map fst hs = [''Location'', ''Cache-Control'']"
  shows "map_of hs ''Set-Cookie'' = None" and "(''Set-Cookie'', c) \<notin> set hs"
proof -
  have s: "set (map fst hs) = {''Location'', ''Cache-Control''}"
    unfolding assms by simp
  have n: "''Set-Cookie'' \<notin> set (map fst hs)"
    unfolding s by simp
  then have i: "''Set-Cookie'' \<notin> fst ` set hs"
    by simp
  show "map_of hs ''Set-Cookie'' = None"
    unfolding map_of_eq_None_iff by (rule i)
  show "(''Set-Cookie'', c) \<notin> set hs"
  proof
    assume "(''Set-Cookie'', c) \<in> set hs"
    then have "fst (''Set-Cookie'', c) \<in> fst ` set hs"
      by (rule imageI)
    then have "''Set-Cookie'' \<in> fst ` set hs"
      by (simp only: fst_conv)
    with i show False
      by (rule notE)
  qed
qed

lemma callback_headers_no_cookie:
  "snd (xero_callback_handler L W event) = Inr r \<longrightarrow>
      map fst (headers r) = [''Location'', ''Cache-Control'']
      \<and> map_of (headers r) ''Set-Cookie'' = None"
proof
  assume "snd (xero_callback_handler L W event) = Inr r"
  from callback_returns_redirect [OF this]
  have m: "map fst (headers r) = [''Location'', ''Cache-Control'']"
    by (elim conjE)
  from m redirect_headers_no_cookie(1) [OF m]
  show "map fst (headers r) = [''Location'', ''Cache-Control'']
    \<and> map_of (headers r) ''Set-Cookie'' = None"
    by (rule conjI)
qed

lemma cookies_not_attached:
  "session_cookies L tokenData connections = Inr cookies
       \<and> callback_success L W tokenData connections = Inr s \<longrightarrow>
      (\<forall>c \<in> set cookies. (''Set-Cookie'', c) \<notin> set (headers s))"
proof (intro impI ballI)
  fix c
  assume "session_cookies L tokenData connections = Inr cookies
     \<and> callback_success L W tokenData connections = Inr s"
  then have "callback_success L W tokenData connections = Inr s"
    by (rule conjunct2)
  then have "map fst (headers s) = [''Location'', ''Cache-Control'']"
    by (rule callback_success_Inr(3))
  then show "(''Set-Cookie'', c) \<notin> set (headers s)"
    by (rule redirect_headers_no_cookie(2))
qed

lemma success_object_built:
  "well_formed (or_str (active_tenantId connections) [])
       \<and> well_formed (or_str (active_tenantName connections) [])
       \<and> well_formed (id_token_payload (or_str (id_token tokenData) []))
       \<and> well_formed (JSON_stringify L (orgData connections))
       \<and> well_formed (JSON_stringify L (token_bundle W tokenData)) \<longrightarrow>
      (\<exists>built. session_cookies L tokenData connections = Inr built)
      \<and> (\<exists>returned. callback_success L W tokenData connections = Inr returned)"
  by (simp add: callback_success_eval session_cookies_eval)

lemma connections_requires_cookie:
  "statusCode (xero_connections_handler L ev) = 200 \<longrightarrow>
         cookie_parse L (or_str (cookie_header ev) []) ''xero_authenticated'' = Some ''true''"
  by (auto simp: xero_connections_handler_def Let_def split: if_splits)

text \<open>
  Claim C10. No response the callback handler returns has a \<open>Set-Cookie\<close> header: its
  headers are \<open>Location\<close> and \<open>Cache-Control\<close>. The success object is built after the
  five cookie strings, none of which it carries, and it is built whenever the values to
  encode hold no lone surrogate. The connections endpoint answers 200 only to a request
  whose \<open>xero_authenticated\<close> cookie is \<open>true\<close>.
\<close>

theorem success_sets_no_cookie:
  "(snd (xero_callback_handler L W event) = Inr r \<longrightarrow>
      map fst (headers r) = [''Location'', ''Cache-Control'']
      \<and> map_of (headers r) ''Set-Cookie'' = None)
   \<and> (callback_success L W tokenData connections = Inr s \<longrightarrow>
      map fst (headers s) = [''Location'', ''Cache-Control''])
   \<and> (session_cookies L tokenData connections = Inr cookies \<longrightarrow> length cookies = 5)
   \<and> (session_cookies L tokenData connections = Inr cookies
       \<and> callback_success L W tokenData connections = Inr s \<longrightarrow>
      (\<forall>c \<in> set cookies. (''Set-Cookie'', c) \<notin> set (headers s)))
   \<and> (callback_success L W tokenData connections = Inr s \<longrightarrow>
      (\<exists>built. session_cookies L tokenData connections = Inr built))
   \<and> (well_formed (or_str (active_tenantId connections) [])
       \<and> well_formed (or_str (active_tenantName connections) [])
       \<and> well_formed (id_token_payload (or_str (id_token tokenData) []))
       \<and> well_formed (JSON_stringify L (orgData connections))
       \<and> well_formed (JSON_stringify L (token_bundle W tokenData)) \<longrightarrow>
      (\<exists>built. session_cookies L tokenData connections = Inr built)
      \<and> (\<exists>returned. callback_success L W tokenData connections = Inr returned))
   \<and> (statusCode (xero_connections_handler L ev) = 200 \<longrightarrow>
         cookie_parse L (or_str (cookie_header ev) []) ''xero_authenticated'' = Some ''true'')"
  apply (intro conjI)
        subgoal by (rule callback_headers_no_cookie)
       subgoal by (rule impI) (rule callback_success_Inr(3))
      subgoal by (rule impI) (rule session_cookies_Inr)
     subgoal by (rule cookies_not_attached)
    subgoal by (rule impI) (rule callback_success_builds_cookies)
   subgoal by (rule success_object_built)
  subgoal by (rule connections_requires_cookie)
  done

text \<open>
  A successful callback with two tenants: the response, the five cookie strings built
  on the way, and a connections request that presents the first of them.
\<close>

theorem success_sets_no_cookie_witness:
  "(map fst (headers \<lparr>statusCode = 302, headers = [(''Location'', ''/?auth=success&tenantName=Org%20A&tenantId=A&multipleOrgs=true&tenants=%5B%7B%22tenantId%22%3A%22A%22%2C%22tenantName%22%3A%22Org%20A%22%7D%2C%7B%22tenantId%22%3A%22B%22%2C%22tenantName%22%3A%22Org%20B%22%7D%5D&tokens=%7B%22access_token%22%3A%22at%22%2C%22refresh_token%22%3A%22rt%22%2C%22expires_at%22%3A1700001800000%7D''), (''Cache-Control'', ''no-cache'')], body = None\<rparr>) = [''Location'', ''Cache-Control'']
    \<and> map_of (headers \<lparr>statusCode = 302, headers = [(''Location'', ''/?auth=success&tenantName=Org%20A&tenantId=A&multipleOrgs=true&tenants=%5B%7B%22tenantId%22%3A%22A%22%2C%22tenantName%22%3A%22Org%20A%22%7D%2C%7B%22tenantId%22%3A%22B%22%2C%22tenantName%22%3A%22Org%20B%22%7D%5D&tokens=%7B%22access_token%22%3A%22at%22%2C%22refresh_token%22%3A%22rt%22%2C%22expires_at%22%3A1700001800000%7D''), (''Cache-Control'', ''no-cache'')], body = None\<rparr>) ''Set-Cookie'' = None)
   \<and> map fst (headers \<lparr>statusCode = 302, headers = [(''Location'', ''/?auth=success&tenantName=Unknown%20Organization&tenantId=&multipleOrgs=false&tenants=%5B%5D&tokens=%7B%22access_token%22%3A%22at%22%2C%22refresh_token%22%3A%22rt%22%2C%22expires_at%22%3A1700001800000%7D''), (''Cache-Control'', ''no-cache'')], body = None\<rparr>) = [''Location'', ''Cache-Control'']
   \<and> length [''xero_authenticated=true; Max-Age=2592000; Path=/; HttpOnly; Secure; SameSite=Lax'',
           ''xero_tenant_id=A; Max-Age=2592000; Path=/; HttpOnly; Secure; SameSite=Lax'',
           ''xero_tenant_name=Org%20A; Max-Age=2592000; Path=/; HttpOnly; Secure; SameSite=Lax'',
           ''xero_user_id=p; Max-Age=2592000; Path=/; HttpOnly; Secure; SameSite=Lax'',
           ''xero_auth=; Max-Age=2592000; Path=/; Expires=Thu, 01 Jan 1970 00:00:00 GMT; HttpOnly; Secure; SameSite=Lax''] = 5
   \<and> (''Set-Cookie'', ''xero_authenticated=true; Max-Age=2592000; Path=/; HttpOnly; Secure; SameSite=Lax'') \<notin> set (headers \<lparr>statusCode = 302, headers = [(''Location'', ''/?auth=success&tenantName=Org%20A&tenantId=A&multipleOrgs=true&tenants=%5B%7B%22tenantId%22%3A%22A%22%2C%22tenantName%22%3A%22Org%20A%22%7D%2C%7B%22tenantId%22%3A%22B%22%2C%22tenantName%22%3A%22Org%20B%22%7D%5D&tokens=%7B%22access_token%22%3A%22at%22%2C%22refresh_token%22%3A%22rt%22%2C%22expires_at%22%3A1700001800000%7D''), (''Cache-Control'', ''no-cache'')], body = None\<rparr>)
   \<and> (\<exists>built. session_cookies node_lib demo_tokens [] = Inr built)
   \<and> ((\<exists>built. session_cookies node_lib demo_tokens two_tenants = Inr built)
       \<and> (\<exists>returned. callback_success node_lib (demo_world two_tenants) demo_tokens two_tenants
                         = Inr returned))
   \<and> cookie_parse node_lib
        (or_str (cookie_header
                   (callback_event [] (Some ''xero_authenticated=true; xero_tenant_id=A''))) [])
        ''xero_authenticated'' = Some ''true''"
proof -
  let ?ev = "callback_event [] (Some ''xero_authenticated=true; xero_tenant_id=A'')"
  have k1: "snd (xero_callback_handler node_lib (demo_world two_tenants) good_event) = Inr \<lparr>statusCode = 302, headers = [(''Location'', ''/?auth=success&tenantName=Org%20A&tenantId=A&multipleOrgs=true&tenants=%5B%7B%22tenantId%22%3A%22A%22%2C%22tenantName%22%3A%22Org%20A%22%7D%2C%7B%22tenantId%22%3A%22B%22%2C%22tenantName%22%3A%22Org%20B%22%7D%5D&tokens=%7B%22access_token%22%3A%22at%22%2C%22refresh_token%22%3A%22rt%22%2C%22expires_at%22%3A1700001800000%7D''), (''Cache-Control'', ''no-cache'')], body = None\<rparr>"
    by code_simp
  have k2: "callback_success node_lib (demo_world []) demo_tokens [] = Inr \<lparr>statusCode = 302, headers = [(''Location'', ''/?auth=success&tenantName=Unknown%20Organization&tenantId=&multipleOrgs=false&tenants=%5B%5D&tokens=%7B%22access_token%22%3A%22at%22%2C%22refresh_token%22%3A%22rt%22%2C%22expires_at%22%3A1700001800000%7D''), (''Cache-Control'', ''no-cache'')], body = None\<rparr>"
    by code_simp
  have k3: "session_cookies node_lib demo_tokens two_tenants = Inr [''xero_authenticated=true; Max-Age=2592000; Path=/; HttpOnly; Secure; SameSite=Lax'',
           ''xero_tenant_id=A; Max-Age=2592000; Path=/; HttpOnly; Secure; SameSite=Lax'',
           ''xero_tenant_name=Org%20A; Max-Age=2592000; Path=/; HttpOnly; Secure; SameSite=Lax'',
           ''xero_user_id=p; Max-Age=2592000; Path=/; HttpOnly; Secure; SameSite=Lax'',
           ''xero_auth=; Max-Age=2592000; Path=/; Expires=Thu, 01 Jan 1970 00:00:00 GMT; HttpOnly; Secure; SameSite=Lax'']"
    by code_simp
  have k4: "session_cookies node_lib demo_tokens two_tenants = Inr [''xero_authenticated=true; Max-Age=2592000; Path=/; HttpOnly; Secure; SameSite=Lax'',
           ''xero_tenant_id=A; Max-Age=2592000; Path=/; HttpOnly; Secure; SameSite=Lax'',
           ''xero_tenant_name=Org%20A; Max-Age=2592000; Path=/; HttpOnly; Secure; SameSite=Lax'',
           ''xero_user_id=p; Max-Age=2592000; Path=/; HttpOnly; Secure; SameSite=Lax'',
           ''xero_auth=; Max-Age=2592000; Path=/; Expires=Thu, 01 Jan 1970 00:00:00 GMT; HttpOnly; Secure; SameSite=Lax'']
       \<and> callback_success node_lib (demo_world two_tenants) demo_tokens two_tenants = Inr \<lparr>statusCode = 302, headers = [(''Location'', ''/?auth=success&tenantName=Org%20A&tenantId=A&multipleOrgs=true&tenants=%5B%7B%22tenantId%22%3A%22A%22%2C%22tenantName%22%3A%22Org%20A%22%7D%2C%7B%22tenantId%22%3A%22B%22%2C%22tenantName%22%3A%22Org%20B%22%7D%5D&tokens=%7B%22access_token%22%3A%22at%22%2C%22refresh_token%22%3A%22rt%22%2C%22expires_at%22%3A1700001800000%7D''), (''Cache-Control'', ''no-cache'')], body = None\<rparr>"
    by code_simp
  have m: "''xero_authenticated=true; Max-Age=2592000; Path=/; HttpOnly; Secure; SameSite=Lax'' \<in> set [''xero_authenticated=true; Max-Age=2592000; Path=/; HttpOnly; Secure; SameSite=Lax'',
           ''xero_tenant_id=A; Max-Age=2592000; Path=/; HttpOnly; Secure; SameSite=Lax'',
           ''xero_tenant_name=Org%20A; Max-Age=2592000; Path=/; HttpOnly; Secure; SameSite=Lax'',
           ''xero_user_id=p; Max-Age=2592000; Path=/; HttpOnly; Secure; SameSite=Lax'',
           ''xero_auth=; Max-Age=2592000; Path=/; Expires=Thu, 01 Jan 1970 00:00:00 GMT; HttpOnly; Secure; SameSite=Lax'']"
    by simp
  have k6: "well_formed (or_str (active_tenantId two_tenants) [])
       \<and> well_formed (or_str (active_tenantName two_tenants) [])
       \<and> well_formed (id_token_payload (or_str (id_token demo_tokens) []))
       \<and> well_formed (JSON_stringify node_lib (orgData two_tenants))
       \<and> well_formed (JSON_stringify node_lib (token_bundle (demo_world two_tenants) demo_tokens))"
    by code_simp
  have k7: "statusCode (xero_connections_handler node_lib ?ev) = 200"
    by code_simp
  note c1 = success_sets_no_cookie [where L = node_lib and W = "demo_world two_tenants"
      and event = good_event, THEN conjunct1, THEN mp, OF k1]
  note c2 = success_sets_no_cookie [where L = node_lib and W = "demo_world []",
      THEN conjunct2, THEN conjunct1, THEN mp, OF k2]
  note c3 = success_sets_no_cookie [where L = node_lib,
      THEN conjunct2, THEN conjunct2, THEN conjunct1, THEN mp, OF k3]
  note c4 = success_sets_no_cookie [where L = node_lib and W = "demo_world two_tenants",
      THEN conjunct2, THEN conjunct2, THEN conjunct2, THEN conjunct1, THEN mp, OF k4,
      THEN bspec, OF m]
  note c5 = success_sets_no_cookie [where L = node_lib and W = "demo_world []",
      THEN conjunct2, THEN conjunct2, THEN conjunct2, THEN conjunct2, THEN conjunct1,
      THEN mp, OF k2]
  note c6 = success_sets_no_cookie [where L = node_lib and W = "demo_world two_tenants",
      THEN conjunct2, THEN conjunct2, THEN conjunct2, THEN conjunct2, THEN conjunct2,
      THEN conjunct1, THEN mp, OF k6]
  note c7 = success_sets_no_cookie [where L = node_lib and ev = ?ev,
      THEN conjunct2, THEN conjunct2, THEN conjunct2, THEN conjunct2, THEN conjunct2,
      THEN conjunct2, THEN mp, OF k7]
  show ?thesis
    by (rule conjI [OF c1 conjI [OF c2 conjI [OF c3 conjI [OF c4 conjI [OF c5 conjI [OF c6 c7]]]]]])
qed

section \<open>Properties of the authorization request\<close>

text \<open>The requests a callback run issues are the token request and the tenant fetch.\<close>

lemma callback_requests:
  assumes "req \<in> set (fst (xero_callback_handler L W event))"
  shows "(\<exists>code cv cid sec. req = callback_token_request W code cv cid sec)
         \<or> (\<exists>td. req = connections_request td)"
proof -
  have u: "set (fst (fetch_user_info L W reqs td)) = set reqs \<union> {connections_request td}"
    for reqs td
    by (auto simp: fetch_user_info_def Let_def split: sum.splits)
  have x: "r \<in> set (fst (exchange_code L W code cv cid sec)) \<Longrightarrow>
           r = callback_token_request W code cv cid sec \<or> (\<exists>td. r = connections_request td)"
    for r code cv cid sec
    by (auto simp: exchange_code_def Let_def u split: sum.splits if_splits)
  have t: "r \<in> set (fst (callback_try L W event)) \<Longrightarrow>
           (\<exists>code cv cid sec. r = callback_token_request W code cv cid sec)
           \<or> (\<exists>td. r = connections_request td)" for r
    by (auto simp: callback_try_def Let_def split: sum.splits if_splits dest!: x)
  from assms have "req \<in> set (fst (callback_try L W event))"
    by (simp add: callback_handler_fst)
  then show ?thesis by (rule t)
qed

lemma hex_encode_without_lead: "CHR 0xED \<notin> set (hex_encode bs)"
proof -
  have d: "CHR 0xED \<noteq> ''0123456789abcdef'' ! (k mod 16)" for k :: nat
  proof -
    have "''0123456789abcdef'' ! (k mod 16) \<in> set ''0123456789abcdef''"
      by (rule nth_mem) simp
    then show ?thesis by auto
  qed
  have p: "CHR 0xED \<notin> set [''0123456789abcdef'' ! ((b div 16) mod 16),
                              ''0123456789abcdef'' ! (b mod 16)]" for b :: nat
    using d [of "b div 16"] d [of b] by simp
  show ?thesis
    unfolding hex_encode_def using p by (induction bs) simp_all
qed

lemma auth_cookieHeader_returns: "\<exists>h. auth_cookieHeader L W = Inr h"
proof -
  have "well_formed (''state='' @ hex_encode (randomBytes W 16)
                      @ ''&code_verifier='' @ hex_encode (randomBytes W 32))"
    by (rule well_formed_without_lead) (simp add: hex_encode_without_lead)
  then show ?thesis
    by (simp add: auth_cookieHeader_def Let_def and_then_def js_encodeURIComponent_def)
qed

text \<open>
  Claim C4. The \<open>redirect_uri\<close> parameter appended to the authorization URL, which is
  the handler's \<open>Location\<close>, and the \<open>redirect_uri\<close> field of every token request that
  a callback issues under the same base URL are the same string.
\<close>

theorem redirect_uri_consistent:
  "map_of (xeroAuthUrl_params L W clientId) ''redirect_uri'' = Some (auth_redirectUri W)
   \<and> (truthy_str (XERO_CLIENT_ID (env W)) \<longrightarrow>
        map_of (headers (xero_auth_handler L W)) ''Location'' =
          Some (URL_toString L ''https://login.xero.com/identity/connect/authorize''
                  (xeroAuthUrl_params L W (or_str (XERO_CLIENT_ID (env W)) []))))
   \<and> (URL (env W') = URL (env W)
       \<and> req \<in> set (fst (xero_callback_handler L' W' event))
       \<and> url req = ''https://identity.xero.com/connect/token'' \<longrightarrow>
        map_of (form req) ''redirect_uri'' = Some (Str (auth_redirectUri W)))"
proof (intro conjI impI)
  show "map_of (xeroAuthUrl_params L W clientId) ''redirect_uri'' = Some (auth_redirectUri W)"
    by (simp add: xeroAuthUrl_params_def Let_def)
next
  assume "truthy_str (XERO_CLIENT_ID (env W))"
  then show "map_of (headers (xero_auth_handler L W)) ''Location'' =
          Some (URL_toString L ''https://login.xero.com/identity/connect/authorize''
                  (xeroAuthUrl_params L W (or_str (XERO_CLIENT_ID (env W)) [])))"
    using auth_cookieHeader_returns [of L W]
    by (auto simp: xero_auth_handler_def auth_try_def Let_def and_then_def)
next
  assume a: "URL (env W') = URL (env W)
       \<and> req \<in> set (fst (xero_callback_handler L' W' event))
       \<and> url req = ''https://identity.xero.com/connect/token''"
  then have "req \<in> set (fst (xero_callback_handler L' W' event))"
    by simp
  then have "(\<exists>code cv cid sec. req = callback_token_request W' code cv cid sec)
         \<or> (\<exists>td. req = connections_request td)"
    by (rule callback_requests)
  with a obtain code cv cid sec where "req = callback_token_request W' code cv cid sec"
    by (auto simp: connections_request_def)
  with a show "map_of (form req) ''redirect_uri'' = Some (Str (auth_redirectUri W))"
    by (simp add: callback_token_request_def callback_redirectUri_def auth_redirectUri_def Let_def)
qed

text \<open>With base URL \<open>https://app.example\<close>, both are that URL followed by the callback path.\<close>

theorem redirect_uri_consistent_witness:
  "map_of (headers (xero_auth_handler node_lib (demo_world []))) ''Location'' =
     Some (URL_toString node_lib ''https://login.xero.com/identity/connect/authorize''
             (xeroAuthUrl_params node_lib (demo_world [])
                (or_str (XERO_CLIENT_ID (env (demo_world []))) [])))
   \<and> map_of (form (hd (fst (xero_callback_handler node_lib (demo_world two_tenants) good_event))))
        ''redirect_uri''
       = Some (Str (auth_redirectUri (demo_world [])))
   \<and> auth_redirectUri (demo_world []) = ''https://app.example/.netlify/functions/xero-callback''"
proof -
  let ?req = "hd (fst (xero_callback_handler node_lib (demo_world two_tenants) good_event))"
  have h1: "truthy_str (XERO_CLIENT_ID (env (demo_world [])))"
    by (simp add: demo_world_def demo_env_def truthy_str_def)
  have h2: "URL (env (demo_world two_tenants)) = URL (env (demo_world []))
       \<and> ?req \<in> set (fst (xero_callback_handler node_lib (demo_world two_tenants) good_event))
       \<and> url ?req = ''https://identity.xero.com/connect/token''"
    by code_simp
  have h3: "auth_redirectUri (demo_world [])
              = ''https://app.example/.netlify/functions/xero-callback''"
    by code_simp
  note t = redirect_uri_consistent [where L = node_lib and W = "demo_world []"
      and W' = "demo_world two_tenants" and L' = node_lib and event = good_event and req = ?req]
  note c1 = t [THEN conjunct2, THEN conjunct1, THEN mp, OF h1]
  note c2 = t [THEN conjunct2, THEN conjunct2, THEN mp, OF h2]
  from c1 c2 h3 show ?thesis
    by (simp only: simp_thms)
qed

text \<open>
  Base64 output is free of \<open>=\<close> up to its padding, so removing every \<open>=\<close> removes
  the trailing padding and nothing else.
\<close>

lemma b64_char_not_pad: "b64_char n \<noteq> CHR ''=''"
proof -
  have "n mod 64 < length b64_alphabet"
    by (simp add: b64_alphabet_def)
  then have "b64_char n \<in> set b64_alphabet"
    unfolding b64_char_def by (rule nth_mem)
  moreover have "CHR ''='' \<notin> set b64_alphabet"
    by (simp add: b64_alphabet_def)
  ultimately show ?thesis by auto
qed

lemma base64_bytes_shape:
  "\<exists>pre pad. base64_bytes bs = pre @ pad \<and> CHR ''='' \<notin> set pre
               \<and> set pad \<subseteq> {CHR ''=''}"
proof (induction bs rule: base64_bytes.induct)
  case 1
  show ?case by simp
next
  case (2 a)
  have "base64_bytes [a] = [b64_char (a div 4), b64_char ((a mod 4) * 16)] @ ''==''"
    by simp
  moreover have "CHR ''='' \<notin> set [b64_char (a div 4), b64_char ((a mod 4) * 16)]"
    by (simp add: b64_char_not_pad [symmetric])
  ultimately show ?case by (intro exI conjI) (assumption, assumption, simp)
next
  case (3 a b)
  have "base64_bytes [a, b] =
          [b64_char (a div 4), b64_char ((a mod 4) * 16 + b div 16), b64_char ((b mod 16) * 4)]
          @ ''=''"
    by simp
  moreover have "CHR ''='' \<notin> set [b64_char (a div 4), b64_char ((a mod 4) * 16 + b div 16),
                                  b64_char ((b mod 16) * 4)]"
    by (simp add: b64_char_not_pad [symmetric])
  ultimately show ?case by (intro exI conjI) (assumption, assumption, simp)
next
  case (4 a b c rest)
  then obtain pre pad where r: "base64_bytes rest = pre @ pad" "CHR ''='' \<notin> set pre"
      "set pad \<subseteq> {CHR ''=''}"
    by blast
  let ?q = "[b64_char (a div 4), b64_char ((a mod 4) * 16 + b div 16),
            b64_char ((b mod 16) * 4 + c div 64), b64_char (c mod 64)]"
  have "base64_bytes (a # b # c # rest) = (?q @ pre) @ pad"
    using r by simp
  moreover have "CHR ''='' \<notin> set (?q @ pre)"
    using r by (simp add: b64_char_not_pad [symmetric])
  ultimately show ?case using r(3) by blast
qed

lemma strip_padding:
  assumes "c \<notin> set pre" and "set pad \<subseteq> {c}"
  shows "filter (\<lambda>x. x \<noteq> c) (pre @ pad) = rev (dropWhile (\<lambda>x. x = c) (rev (pre @ pad)))"
proof -
  have 1: "filter (\<lambda>x. x \<noteq> c) pre = pre"
    using assms(1) by (induction pre) auto
  have 2: "filter (\<lambda>x. x \<noteq> c) pad = []"
    using assms(2) by (induction pad) auto
  have 3: "dropWhile (\<lambda>x. x = c) (rev pad @ rev pre) = dropWhile (\<lambda>x. x = c) (rev pre)"
    using assms(2) by (intro dropWhile_append2) auto
  have 4: "dropWhile (\<lambda>x. x = c) (rev pre) = rev pre"
    using assms(1) by (cases "rev pre") (auto simp: dropWhile_eq_self_iff)
  show ?thesis by (simp add: 1 2 3 4)
qed

lemma replace_all_char: "replace_all c [r] s = map (\<lambda>x. if x = c then r else x) s"
  by (induction s) (simp_all add: replace_all_def)

lemma replace_all_empty: "replace_all c [] s = filter (\<lambda>x. x \<noteq> c) s"
  by (induction s) (simp_all add: replace_all_def)

lemma codeChallenge_refines:
  "codeChallenge L codeVerifier = spec_base64url_nopad (sha256 L (utf8_bytes codeVerifier))"
proof -
  let ?g = "\<lambda>c. if c = CHR ''+'' then CHR ''-'' else if c = CHR ''/'' then CHR ''_'' else c"
  obtain pre pad where s: "base64_bytes (sha256 L (utf8_bytes codeVerifier)) = pre @ pad"
      "CHR ''='' \<notin> set pre" "set pad \<subseteq> {CHR ''=''}"
    using base64_bytes_shape by blast
  have g: "(\<lambda>x. if (if x = CHR ''+'' then CHR ''-'' else x) = CHR ''/'' then CHR ''_''
                else if x = CHR ''+'' then CHR ''-'' else x) = ?g"
    by (rule ext) simp
  have l: "codeChallenge L codeVerifier
             = filter (\<lambda>x. x \<noteq> CHR ''='') (map ?g pre @ map ?g pad)"
    by (simp add: codeChallenge_def replace_all_char replace_all_empty s(1) o_def g)
  have b: "CHR ''='' \<notin> set (map ?g pre)"
    using s(2) by auto
  have p: "set (map ?g pad) \<subseteq> {CHR ''=''}"
    using s(3) by auto
  show ?thesis
    unfolding l spec_base64url_nopad_def s(1) map_append
    by (rule strip_padding [OF b p])
qed

text \<open>
  Claim C3. For every digest function and code verifier, the code challenge the handler
  computes is the digest of the verifier's bytes, base64-encoded, with \<open>+\<close> and \<open>/\<close>
  replaced by \<open>-\<close> and \<open>_\<close> and the trailing padding stripped; that is the value of the
  \<open>code_challenge\<close> parameter; and with SHA-256 the challenge of \<open>abc123\<close> is
  \<open>bKE9UspwyIPg8LsQHkJaiehiTeUdstI5JZOvaoQRgJA\<close>.
\<close>

theorem pkce_challenge:
  "codeChallenge L codeVerifier = spec_base64url_nopad (sha256 L (utf8_bytes codeVerifier))
   \<and> map_of (xeroAuthUrl_params L W clientId) ''code_challenge''
       = Some (spec_base64url_nopad
                 (sha256 L (utf8_bytes (hex_encode (randomBytes W 32)))))
   \<and> codeChallenge node_lib ''abc123'' = ''bKE9UspwyIPg8LsQHkJaiehiTeUdstI5JZOvaoQRgJA''"
proof (intro conjI)
  show "codeChallenge L codeVerifier = spec_base64url_nopad (sha256 L (utf8_bytes codeVerifier))"
    by (rule codeChallenge_refines)
  show "map_of (xeroAuthUrl_params L W clientId) ''code_challenge''
       = Some (spec_base64url_nopad
                 (sha256 L (utf8_bytes (hex_encode (randomBytes W 32)))))"
    by (simp add: xeroAuthUrl_params_def Let_def codeChallenge_refines)
  show "codeChallenge node_lib ''abc123'' = ''bKE9UspwyIPg8LsQHkJaiehiTeUdstI5JZOvaoQRgJA''"
    by code_simp
qed

text \<open>A verifier whose digest encodes with \<open>/\<close> and \<open>+\<close>: both are replaced.\<close>

lemma pkce_challenge_replaces:
  "codeChallenge node_lib (hex_encode (replicate 32 7))
     = ''GWfA_a7QuPJhjTsfSp-FQe0xVQWswm9aQfOC2ovdmVQ''"
  by code_simp

end
